theory Spec2Isabelle
  imports Complex_Main
begin

section \<open>JavaScript numbers\<close>

text \<open>
  The simulator computes with JavaScript numbers. A number is modelled as a real, or one of
  the three special values of IEEE 754. Finite arithmetic is exact here: rounding and
  overflow to infinity are left out, and there is no negative zero. What is kept is the
  behaviour of the special values: division by zero gives an infinity or \<open>NaN\<close>, zero times
  infinity is \<open>NaN\<close>, \<open>NaN\<close> spreads through every operation and compares false with
  everything, itself included.
\<close>

datatype jsnum = Num real | PosInf | NegInf | NaN

definition inf_signed :: "real \<Rightarrow> jsnum" where
  "inf_signed a = (if a = 0 then NaN else if 0 < a then PosInf else NegInf)"

instantiation jsnum :: "{plus, uminus, times, divide, ord}"
begin

fun plus_jsnum :: "jsnum \<Rightarrow> jsnum \<Rightarrow> jsnum" where
  "plus_jsnum NaN _ = NaN"
| "plus_jsnum _ NaN = NaN"
| "plus_jsnum (Num a) (Num b) = Num (a + b)"
| "plus_jsnum PosInf NegInf = NaN"
| "plus_jsnum NegInf PosInf = NaN"
| "plus_jsnum PosInf _ = PosInf"
| "plus_jsnum _ PosInf = PosInf"
| "plus_jsnum NegInf _ = NegInf"
| "plus_jsnum _ NegInf = NegInf"

fun uminus_jsnum :: "jsnum \<Rightarrow> jsnum" where
  "uminus_jsnum (Num a) = Num (- a)"
| "uminus_jsnum PosInf = NegInf"
| "uminus_jsnum NegInf = PosInf"
| "uminus_jsnum NaN = NaN"

fun times_jsnum :: "jsnum \<Rightarrow> jsnum \<Rightarrow> jsnum" where
  "times_jsnum NaN _ = NaN"
| "times_jsnum _ NaN = NaN"
| "times_jsnum (Num a) (Num b) = Num (a * b)"
| "times_jsnum (Num a) PosInf = inf_signed a"
| "times_jsnum (Num a) NegInf = inf_signed (- a)"
| "times_jsnum PosInf (Num b) = inf_signed b"
| "times_jsnum NegInf (Num b) = inf_signed (- b)"
| "times_jsnum PosInf PosInf = PosInf"
| "times_jsnum PosInf NegInf = NegInf"
| "times_jsnum NegInf PosInf = NegInf"
| "times_jsnum NegInf NegInf = PosInf"

fun divide_jsnum :: "jsnum \<Rightarrow> jsnum \<Rightarrow> jsnum" where
  "divide_jsnum NaN _ = NaN"
| "divide_jsnum _ NaN = NaN"
| "divide_jsnum (Num a) (Num b) = (if b = 0 then inf_signed a else Num (a / b))"
| "divide_jsnum (Num a) _ = Num 0"
| "divide_jsnum PosInf (Num b) = (if 0 \<le> b then PosInf else NegInf)"
| "divide_jsnum NegInf (Num b) = (if 0 \<le> b then NegInf else PosInf)"
| "divide_jsnum _ _ = NaN"

fun less_jsnum :: "jsnum \<Rightarrow> jsnum \<Rightarrow> bool" where
  "less_jsnum NaN _ = False"
| "less_jsnum _ NaN = False"
| "less_jsnum (Num a) (Num b) = (a < b)"
| "less_jsnum (Num a) PosInf = True"
| "less_jsnum (Num a) NegInf = False"
| "less_jsnum PosInf _ = False"
| "less_jsnum NegInf NegInf = False"
| "less_jsnum NegInf _ = True"

fun less_eq_jsnum :: "jsnum \<Rightarrow> jsnum \<Rightarrow> bool" where
  "less_eq_jsnum NaN _ = False"
| "less_eq_jsnum _ NaN = False"
| "less_eq_jsnum (Num a) (Num b) = (a \<le> b)"
| "less_eq_jsnum (Num a) PosInf = True"
| "less_eq_jsnum (Num a) NegInf = False"
| "less_eq_jsnum PosInf PosInf = True"
| "less_eq_jsnum PosInf _ = False"
| "less_eq_jsnum NegInf _ = True"

instance ..

end

instantiation jsnum :: "{minus, inverse}"
begin

definition minus_jsnum :: "jsnum \<Rightarrow> jsnum \<Rightarrow> jsnum" where
  "minus_jsnum a b = a + (- b)"

definition inverse_jsnum :: "jsnum \<Rightarrow> jsnum" where
  "inverse_jsnum a = divide (Num 1) a"

instance ..

end

text \<open>The operator \<open>==\<close> on two numbers: \<open>NaN\<close> is not equal to itself.\<close>

definition js_eq :: "jsnum \<Rightarrow> jsnum \<Rightarrow> bool" where
  "js_eq a b = (a = b \<and> a \<noteq> NaN)"

fun Math_min :: "jsnum \<Rightarrow> jsnum \<Rightarrow> jsnum" where
  "Math_min NaN _ = NaN"
| "Math_min _ NaN = NaN"
| "Math_min a b = (if a < b then a else b)"

fun Math_sqrt :: "jsnum \<Rightarrow> jsnum" where
  "Math_sqrt (Num a) = (if a < 0 then NaN else Num (sqrt a))"
| "Math_sqrt PosInf = PosInf"
| "Math_sqrt NegInf = NaN"
| "Math_sqrt NaN = NaN"

fun Math_cos :: "jsnum \<Rightarrow> jsnum" where
  "Math_cos (Num a) = Num (cos a)"
| "Math_cos _ = NaN"

fun Math_sin :: "jsnum \<Rightarrow> jsnum" where
  "Math_sin (Num a) = Num (sin a)"
| "Math_sin _ = NaN"

text \<open>A number that is neither infinite nor \<open>NaN\<close>.\<close>

fun isFinite :: "jsnum \<Rightarrow> bool" where
  "isFinite (Num a) = True"
| "isFinite _ = False"

text \<open>
  Modelled from the spec: \<open>Math.clamp\<close> is a helper of the repository's utility file,
  which is not among the sources; the spec uses it as \<open>clamp(C, 0, maxLinearCorrection)\<close>,
  the value limited to the interval from the second to the third argument.
\<close>

definition Math_clamp :: "jsnum \<Rightarrow> jsnum \<Rightarrow> jsnum \<Rightarrow> jsnum" where
  "Math_clamp v lo hi = (if v < lo then lo else if hi < v then hi else v)"


section \<open>Two-dimensional vectors\<close>

text \<open>
  Modelled from the spec: the \<open>vec2\<close> library is not among the sources (spec section 2,
  math primitives: 2D vectors, rotations, scalar cross). The operations have their usual
  meaning, which is also how the comments of the rope joint use them. A vector stored in a
  field is a value here: no two fields share one vector object. The spec does not say what
  the constructor does with a coordinate that is not a number; here it is stored as given.
\<close>

record vec2 =
  xc :: jsnum
  yc :: jsnum

definition vec2_new :: "jsnum \<Rightarrow> jsnum \<Rightarrow> vec2" where
  "vec2_new a b = \<lparr>xc = a, yc = b\<rparr>"

definition vec2_zero :: vec2 where
  "vec2_zero = vec2_new (Num 0) (Num 0)"

definition vec2_add :: "vec2 \<Rightarrow> vec2 \<Rightarrow> vec2" where
  "vec2_add a b = vec2_new (xc a + xc b) (yc a + yc b)"

definition vec2_sub :: "vec2 \<Rightarrow> vec2 \<Rightarrow> vec2" where
  "vec2_sub a b = vec2_new (xc a - xc b) (yc a - yc b)"

definition vec2_scale :: "vec2 \<Rightarrow> jsnum \<Rightarrow> vec2" where
  "vec2_scale a s = vec2_new (xc a * s) (yc a * s)"

definition vec2_dot :: "vec2 \<Rightarrow> vec2 \<Rightarrow> jsnum" where
  "vec2_dot a b = xc a * xc b + yc a * yc b"

definition vec2_cross :: "vec2 \<Rightarrow> vec2 \<Rightarrow> jsnum" where
  "vec2_cross a b = xc a * yc b - yc a * xc b"

definition vec2_rotate :: "vec2 \<Rightarrow> jsnum \<Rightarrow> vec2" where
  "vec2_rotate a angle =
     (let c = Math_cos angle; s = Math_sin angle
      in vec2_new (xc a * c - yc a * s) (xc a * s + yc a * c))"

definition vec2_lengthsq :: "vec2 \<Rightarrow> jsnum" where
  "vec2_lengthsq a = xc a * xc a + yc a * yc a"

definition vec2_length :: "vec2 \<Rightarrow> jsnum" where
  "vec2_length a = Math_sqrt (xc a * xc a + yc a * yc a)"

text \<open>\<open>a.mad(b, s)\<close> adds \<open>b\<close> scaled by \<open>s\<close> to \<open>a\<close>.\<close>

definition vec2_mad :: "vec2 \<Rightarrow> vec2 \<Rightarrow> jsnum \<Rightarrow> vec2" where
  "vec2_mad a b s = vec2_new (xc a + xc b * s) (yc a + yc b * s)"



section \<open>Objects: bodies, joints and the store\<close>

text \<open>
  Bodies and joints are JavaScript objects, shared by reference: a joint points to its two
  bodies, which the Space's table points to as well. Objects live in a store, a total map
  from references to object values, and every method takes the store and returns it updated,
  statement by statement in the order of the source.
\<close>

text \<open>
  Modelled from the spec: the classes \<open>Body\<close> and \<open>Joint\<close> are not among the sources. The
  fields below are the ones that the rope joint and the Space read and write, with the
  meaning given in spec section 3 (data model). Field names carry the prefix \<open>b_\<close> or \<open>j_\<close>
  because the source's one-letter names (\<open>p\<close>, \<open>a\<close>, \<open>v\<close>, \<open>w\<close>, \<open>u\<close>) would otherwise
  take these letters away from every later statement.
\<close>

type_synonym ref = nat

datatype body_type = Body_STATIC | Body_KINETIC | Body_DYNAMIC

datatype limit_state =
  LIMIT_STATE_INACTIVE | LIMIT_STATE_AT_LOWER | LIMIT_STATE_AT_UPPER | LIMIT_STATE_EQUAL_LIMITS

datatype joint_class =
  AngleJoint | RevoluteJoint | WeldJoint | DistanceJoint | LineJoint | PrismaticJoint | RopeJoint

record Bounds =
  mins :: vec2
  maxs :: vec2

record Body =
  b_id :: nat
  b_type :: body_type
  b_p :: vec2
  b_a :: jsnum
  b_v :: vec2
  b_w :: jsnum
  b_f :: vec2
  b_t :: jsnum
  b_m :: jsnum
  b_m_inv :: jsnum
  b_i :: jsnum
  b_i_inv :: jsnum
  b_centroid :: vec2
  b_awaked :: bool
  b_sleepTime :: jsnum
  b_stepCount :: "jsnum option"
  b_shapeArr :: "ref list"
  b_jointHash :: "(nat \<times> ref) list"
  b_bounds :: Bounds
  b_space :: bool

record Joint =
  j_class :: joint_class
  j_id :: nat
  j_body1 :: ref
  j_body2 :: ref
  j_collideConnected :: bool
  j_maxForce :: jsnum
  j_breakable :: bool
  j_anchor1 :: vec2
  j_anchor2 :: vec2
  j_maxDistance :: jsnum
  j_lambda_acc :: jsnum
  j_maxImpulse :: jsnum
  j_r1 :: vec2
  j_r2 :: vec2
  j_distance :: jsnum
  j_cdt :: jsnum
  j_limitState :: limit_state
  j_u :: vec2
  j_s1 :: jsnum
  j_s2 :: jsnum
  j_em :: jsnum

text \<open>
  Modelled from the spec: the constants of \<open>Joint\<close> are declared in the missing joint
  file; the values are those of spec section 6 (LINEAR_SLOP 0.5e-2, MAX_LINEAR_CORRECTION
  0.2). No statement below depends on the values, only on their being positive numbers.
\<close>

definition Joint_LINEAR_SLOP :: jsnum where
  "Joint_LINEAR_SLOP = Num 0.005"

definition Joint_MAX_LINEAR_CORRECTION :: jsnum where
  "Joint_MAX_LINEAR_CORRECTION = Num 0.2"

text \<open>
  Modelled from the spec: the classes \<open>Shape\<close>, \<open>Contact\<close> and \<open>ContactSolver\<close> are not among
  the sources. A shape has an identity, a type tag (circle, segment, polygon, in this order,
  spec section 3), a material and a geometry; a contact solver refers to its two shapes
  and holds the contact points and the combined material.
\<close>

datatype geometry =
  Circle vec2 jsnum | Segment vec2 vec2 jsnum | Poly "vec2 list"

definition Shape_TYPE_CIRCLE :: nat where
  "Shape_TYPE_CIRCLE = 0"

definition Shape_TYPE_SEGMENT :: nat where
  "Shape_TYPE_SEGMENT = 1"

definition Shape_TYPE_POLY :: nat where
  "Shape_TYPE_POLY = 2"

record Shape =
  sh_id :: nat
  sh_type :: nat
  sh_geometry :: geometry
  sh_e :: jsnum
  sh_u :: jsnum
  sh_density :: jsnum

record Contact =
  c_p :: vec2
  c_n :: vec2
  c_d :: jsnum
  c_hash :: nat
  c_jn_acc :: jsnum
  c_jt_acc :: jsnum

record ContactSolver =
  cs_shape1 :: ref
  cs_shape2 :: ref
  cs_contactArr :: "Contact list"
  cs_e :: jsnum
  cs_u :: jsnum

record store =
  bodyObj :: "ref \<Rightarrow> Body"
  jointObj :: "ref \<Rightarrow> Joint"
  shapeObj :: "ref \<Rightarrow> Shape"
  contactSolverObj :: "ref \<Rightarrow> ContactSolver"

definition upd_body :: "ref \<Rightarrow> (Body \<Rightarrow> Body) \<Rightarrow> 'a store_scheme \<Rightarrow> 'a store_scheme" where
  "upd_body r g s = s\<lparr>bodyObj := (bodyObj s)(r := g (bodyObj s r))\<rparr>"

definition upd_joint :: "ref \<Rightarrow> (Joint \<Rightarrow> Joint) \<Rightarrow> 'a store_scheme \<Rightarrow> 'a store_scheme" where
  "upd_joint r g s = s\<lparr>jointObj := (jointObj s)(r := g (jointObj s r))\<rparr>"


section \<open>The rope joint\<close>

text \<open>
  \<open>V += JT * lambda * invM\<close>: the four statements that end \<open>initSolver\<close> (warm start, with
  the accumulated impulse) and \<open>solveVelocityConstraints\<close> (with the clamped delta). Each
  statement reads the body as the statement before left it.
\<close>

definition RopeJoint_applyImpulse ::
  "ref \<Rightarrow> jsnum \<Rightarrow> 'a store_scheme \<Rightarrow> 'a store_scheme" where
  "RopeJoint_applyImpulse this lambda s =
     (let jt = jointObj s this;
          body1 = j_body1 jt;
          body2 = j_body2 jt;
          j = vec2_scale (j_u jt) lambda;
          s = upd_body body1 (\<lambda>b. b\<lparr>b_v := vec2_mad (b_v b) j (- b_m_inv b)\<rparr>) s;
          s = upd_body body1 (\<lambda>b. b\<lparr>b_w := b_w b - j_s1 jt * lambda * b_i_inv b\<rparr>) s;
          s = upd_body body2 (\<lambda>b. b\<lparr>b_v := vec2_mad (b_v b) j (b_m_inv b)\<rparr>) s;
          s = upd_body body2 (\<lambda>b. b\<lparr>b_w := b_w b + j_s2 jt * lambda * b_i_inv b\<rparr>) s
      in s)"

definition RopeJoint_initSolver ::
  "ref \<Rightarrow> jsnum \<Rightarrow> bool \<Rightarrow> 'a store_scheme \<Rightarrow> 'a store_scheme" where
  "RopeJoint_initSolver this dt warmStarting s =
     (let jt = jointObj s this;
          body1 = bodyObj s (j_body1 jt);
          body2 = bodyObj s (j_body2 jt);
          maxImpulse = j_maxForce jt * dt;
          r1 = vec2_rotate (vec2_sub (j_anchor1 jt) (b_centroid body1)) (b_a body1);
          r2 = vec2_rotate (vec2_sub (j_anchor2 jt) (b_centroid body2)) (b_a body2);
          d = vec2_sub (vec2_add (b_p body2) r2) (vec2_add (b_p body1) r1);
          distance = vec2_length d;
          c = distance - j_maxDistance jt;
          cdt = (if Num 0 < c then Num 0 else c / dt);
          limitState = (if Num 0 < c then LIMIT_STATE_AT_UPPER else LIMIT_STATE_INACTIVE);
          u = (if Joint_LINEAR_SLOP < distance then vec2_scale d (Num 1 / distance)
               else vec2_zero);
          s1 = vec2_cross r1 u;
          s2 = vec2_cross r2 u;
          em_inv = b_m_inv body1 + b_m_inv body2 + b_i_inv body1 * s1 * s1
                   + b_i_inv body2 * s2 * s2;
          em = (if js_eq em_inv (Num 0) then Num 0 else Num 1 / em_inv);
          s = upd_joint this (\<lambda>_. jt\<lparr>j_maxImpulse := maxImpulse, j_r1 := r1, j_r2 := r2,
                j_distance := distance, j_cdt := cdt, j_limitState := limitState,
                j_u := u, j_s1 := s1, j_s2 := s2, j_em := em\<rparr>) s
      in if warmStarting then RopeJoint_applyImpulse this (j_lambda_acc jt) s
         else upd_joint this (\<lambda>j. j\<lparr>j_lambda_acc := Num 0\<rparr>) s)"

definition RopeJoint_solveVelocityConstraints :: "ref \<Rightarrow> 'a store_scheme \<Rightarrow> 'a store_scheme" where
  "RopeJoint_solveVelocityConstraints this s =
     (let jt = jointObj s this;
          body1 = bodyObj s (j_body1 jt);
          body2 = bodyObj s (j_body2 jt);
          cdot = vec2_dot (j_u jt) (vec2_sub (b_v body2) (b_v body1))
                 + j_s2 jt * b_w body2 - j_s1 jt * b_w body1;
          lambda = (- j_em jt) * (cdot + j_cdt jt);
          lambda_old = j_lambda_acc jt;
          lambda_acc = Math_min (lambda_old + lambda) (Num 0);
          lambda = lambda_acc - lambda_old;
          s = upd_joint this (\<lambda>j. j\<lparr>j_lambda_acc := lambda_acc\<rparr>) s
      in RopeJoint_applyImpulse this lambda s)"

text \<open>
  The local variables of \<open>solvePositionConstraints\<close> up to \<open>lambda\<close>, in the order in which
  the source computes them. \<open>inv_dist\<close> is not a variable of the source: it is the value of
  the expression \<open>1 / dist\<close>, the second argument of \<open>vec2.scale\<close> in the statement that
  computes \<open>u\<close>.
\<close>

record position_locals =
  pl_r1 :: vec2
  pl_r2 :: vec2
  pl_d :: vec2
  pl_dist :: jsnum
  pl_inv_dist :: jsnum
  pl_u :: vec2
  pl_c :: jsnum
  pl_correction :: jsnum
  pl_s1 :: jsnum
  pl_s2 :: jsnum
  pl_em_inv :: jsnum
  pl_lambda :: jsnum

definition RopeJoint_solvePositionConstraints_locals ::
  "ref \<Rightarrow> 'a store_scheme \<Rightarrow> position_locals" where
  "RopeJoint_solvePositionConstraints_locals this s =
     (let jt = jointObj s this;
          body1 = bodyObj s (j_body1 jt);
          body2 = bodyObj s (j_body2 jt);
          r1 = vec2_rotate (vec2_sub (j_anchor1 jt) (b_centroid body1)) (b_a body1);
          r2 = vec2_rotate (vec2_sub (j_anchor2 jt) (b_centroid body2)) (b_a body2);
          d = vec2_sub (vec2_add (b_p body2) r2) (vec2_add (b_p body1) r1);
          dist = vec2_length d;
          inv_dist = Num 1 / dist;
          u = vec2_scale d inv_dist;
          c = dist - j_maxDistance jt;
          correction = Math_clamp c (Num 0) Joint_MAX_LINEAR_CORRECTION;
          s1 = vec2_cross r1 u;
          s2 = vec2_cross r2 u;
          em_inv = b_m_inv body1 + b_m_inv body2 + b_i_inv body1 * s1 * s1
                   + b_i_inv body2 * s2 * s2;
          lambda = (if js_eq em_inv (Num 0) then Num 0 else (- correction) / em_inv)
      in \<lparr>pl_r1 = r1, pl_r2 = r2, pl_d = d, pl_dist = dist, pl_inv_dist = inv_dist, pl_u = u,
          pl_c = c, pl_correction = correction, pl_s1 = s1, pl_s2 = s2, pl_em_inv = em_inv,
          pl_lambda = lambda\<rparr>)"

text \<open>
  \<open>solvePositionConstraints\<close>: the locals, then the four statements that move the bodies.
  The result is the returned flag and the store.
\<close>

definition RopeJoint_solvePositionConstraints ::
  "ref \<Rightarrow> 'a store_scheme \<Rightarrow> bool \<times> 'a store_scheme" where
  "RopeJoint_solvePositionConstraints this s =
     (let jt = jointObj s this;
          b1 = j_body1 jt;
          b2 = j_body2 jt;
          l = RopeJoint_solvePositionConstraints_locals this s;
          u = pl_u l;
          s1 = pl_s1 l;
          s2 = pl_s2 l;
          lambda = pl_lambda l;
          j = vec2_scale u lambda;
          s = upd_body b1 (\<lambda>b. b\<lparr>b_p := vec2_mad (b_p b) j (- b_m_inv b)\<rparr>) s;
          s = upd_body b1 (\<lambda>b. b\<lparr>b_a := b_a b - s1 * lambda * b_i_inv b\<rparr>) s;
          s = upd_body b2 (\<lambda>b. b\<lparr>b_p := vec2_mad (b_p b) j (b_m_inv b)\<rparr>) s;
          s = upd_body b2 (\<lambda>b. b\<lparr>b_a := b_a b + s2 * lambda * b_i_inv b\<rparr>) s
      in (pl_c l < Joint_LINEAR_SLOP, s))"

definition RopeJoint_getReactionForce :: "ref \<Rightarrow> jsnum \<Rightarrow> 'a store_scheme \<Rightarrow> vec2" where
  "RopeJoint_getReactionForce this dt_inv s =
     vec2_scale (j_u (jointObj s this)) (j_lambda_acc (jointObj s this) * dt_inv)"


section \<open>The Space: tables of bodies and joints\<close>

text \<open>
  \<open>bodyHash\<close> and \<open>jointHash\<close> are JavaScript objects used as tables from an id to an object.
  Ids are non-negative integers, and \<open>for (i in table)\<close> visits integer keys in ascending
  order: a table is a list of pairs kept in ascending order of the key.
\<close>

definition hash_get :: "(nat \<times> 'a) list \<Rightarrow> nat \<Rightarrow> 'a option" where
  "hash_get xs k = map_of xs k"

fun hash_set :: "nat \<Rightarrow> 'a \<Rightarrow> (nat \<times> 'a) list \<Rightarrow> (nat \<times> 'a) list" where
  "hash_set k v [] = [(k, v)]"
| "hash_set k v ((k', v') # xs) =
     (if k < k' then (k, v) # (k', v') # xs
      else if k = k' then (k, v) # xs
      else (k', v') # hash_set k v xs)"

definition hash_delete :: "nat \<Rightarrow> (nat \<times> 'a) list \<Rightarrow> (nat \<times> 'a) list" where
  "hash_delete k xs = filter (\<lambda>e. fst e \<noteq> k) xs"

definition hash_keys :: "(nat \<times> 'a) list \<Rightarrow> nat list" where
  "hash_keys xs = map fst xs"

text \<open>
  The state of the program: the store of objects, the fields of the one Space (\<open>this\<close> in
  every method below), the id counters of the three classes, which are global, and the next
  unused reference, from which \<open>new\<close> allocates. \<open>stepCount\<close> is \<open>None\<close> while the field is
  undefined: the constructor does not set it, \<open>clear\<close> does.
\<close>

record world = store +
  bodyHash :: "(nat \<times> ref) list"
  numBodies :: int
  jointHash :: "(nat \<times> ref) list"
  numJoints :: int
  contactSolverArr :: "ref list"
  numContacts :: int
  gravity :: vec2
  damping :: jsnum
  stepCount :: "jsnum option"
  Shape_id_counter :: nat
  Body_id_counter :: nat
  Joint_id_counter :: nat
  nextRef :: ref

text \<open>
  Code of the repository that is not among the sources and that the Space calls is a
  parameter of the model. A missing method reads and writes objects only: it is a function
  on the plain store, and \<open>on_store\<close> runs it inside the program state.
\<close>

text \<open>
  Modelled from the spec: \<open>cacheData\<close> recomputes the world geometry of a body's shapes and
  its AABB (4.1); \<open>isCollidable\<close> and \<open>intersectsBounds\<close> are the two broad-phase tests (4.5);
  \<open>collide\<close> is the external collision kernel, which returns whether the shapes touch and
  the contact points (6); \<open>update\<close> carries the impulses of matching contact points over
  (4.5); the two position solvers return whether the error is below the slop (4.2, 4.3).
\<close>

record ext =
  Body_cacheData :: "ref \<Rightarrow> store \<Rightarrow> store"
  Body_isCollidable :: "ref \<Rightarrow> ref \<Rightarrow> store \<Rightarrow> bool"
  Bounds_intersectsBounds :: "Bounds \<Rightarrow> Bounds \<Rightarrow> bool"
  collision_collide :: "ref \<Rightarrow> ref \<Rightarrow> store \<Rightarrow> bool \<times> Contact list"
  ContactSolver_update :: "ref \<Rightarrow> Contact list \<Rightarrow> store \<Rightarrow> store"
  ContactSolver_solvePositionConstraints :: "ref \<Rightarrow> store \<Rightarrow> bool \<times> store"
  Joint_solvePositionConstraints :: "ref \<Rightarrow> store \<Rightarrow> bool \<times> store"

definition put_store :: "store \<Rightarrow> 'a store_scheme \<Rightarrow> 'a store_scheme" where
  "put_store st w = w\<lparr>bodyObj := bodyObj st, jointObj := jointObj st,
                      shapeObj := shapeObj st, contactSolverObj := contactSolverObj st\<rparr>"

definition on_store :: "(store \<Rightarrow> store) \<Rightarrow> 'a store_scheme \<Rightarrow> 'a store_scheme" where
  "on_store g w = put_store (g (store.truncate w)) w"

definition on_store_result ::
  "(store \<Rightarrow> 'b \<times> store) \<Rightarrow> 'a store_scheme \<Rightarrow> 'b \<times> 'a store_scheme" where
  "on_store_result g w = (fst (g (store.truncate w)), put_store (snd (g (store.truncate w))) w)"

text \<open>
  Modelled from the spec: the methods of \<open>Body\<close> that the Space calls. \<open>awake(flag)\<close> sets
  the sleep state and resets \<open>sleepTime\<close> when waking (4.1); a body is static or dynamic by
  its kind (3).
\<close>

definition Body_awake :: "bool \<Rightarrow> Body \<Rightarrow> Body" where
  "Body_awake flag b = b\<lparr>b_awaked := flag,
                          b_sleepTime := (if flag then Num 0 else b_sleepTime b)\<rparr>"

definition Body_isAwake :: "Body \<Rightarrow> bool" where
  "Body_isAwake b = b_awaked b"

definition Body_isStatic :: "Body \<Rightarrow> bool" where
  "Body_isStatic b = (b_type b = Body_STATIC)"

definition Body_isDynamic :: "Body \<Rightarrow> bool" where
  "Body_isDynamic b = (b_type b = Body_DYNAMIC)"

text \<open>The constructor \<open>Space()\<close>, on a given store and first unused reference.\<close>

definition Space :: "store \<Rightarrow> nat \<Rightarrow> nat \<Rightarrow> nat \<Rightarrow> ref \<Rightarrow> world" where
  "Space st shape_ids body_ids joint_ids r =
     store.extend st \<lparr>bodyHash = [], numBodies = 0, jointHash = [], numJoints = 0,
       contactSolverArr = [], numContacts = 0, gravity = vec2_new (Num 0) (Num 0),
       damping = Num 1, stepCount = None, Shape_id_counter = shape_ids,
       Body_id_counter = body_ids, Joint_id_counter = joint_ids, nextRef = r\<rparr>"

definition Space_addBody :: "ext \<Rightarrow> ref \<Rightarrow> world \<Rightarrow> world" where
  "Space_addBody x body w =
     (if hash_get (bodyHash w) (b_id (bodyObj w body)) \<noteq> None then w
      else
        let w = w\<lparr>bodyHash := hash_set (b_id (bodyObj w body)) body (bodyHash w)\<rparr>;
            w = w\<lparr>numBodies := numBodies w + 1\<rparr>;
            w = upd_body body (Body_awake True) w;
            w = upd_body body (\<lambda>b. b\<lparr>b_space := True\<rparr>) w;
            w = on_store (Body_cacheData x body) w
        in w)"

definition Space_removeJoint :: "ref \<Rightarrow> world \<Rightarrow> world" where
  "Space_removeJoint joint w =
     (if hash_get (jointHash w) (j_id (jointObj w joint)) = None then w
      else
        let jt = jointObj w joint;
            w = upd_body (j_body1 jt) (Body_awake True) w;
            w = upd_body (j_body2 jt) (Body_awake True) w;
            w = upd_body (j_body1 jt)
                  (\<lambda>b. b\<lparr>b_jointHash := hash_delete (j_id jt) (b_jointHash b)\<rparr>) w;
            w = upd_body (j_body2 jt)
                  (\<lambda>b. b\<lparr>b_jointHash := hash_delete (j_id jt) (b_jointHash b)\<rparr>) w;
            w = w\<lparr>jointHash := hash_delete (j_id jt) (jointHash w)\<rparr>;
            w = w\<lparr>numJoints := numJoints w - 1\<rparr>
        in w)"

text \<open>
  \<open>for (var i in body.jointHash) this.removeJoint(body.jointHash[i])\<close>: the keys are those
  present when the loop starts; a key that an earlier round deleted is not visited.
\<close>

fun removeBody_joints :: "ref \<Rightarrow> nat list \<Rightarrow> world \<Rightarrow> world" where
  "removeBody_joints body [] w = w"
| "removeBody_joints body (i # is) w =
     (case hash_get (b_jointHash (bodyObj w body)) i of
        None \<Rightarrow> removeBody_joints body is w
      | Some joint \<Rightarrow> removeBody_joints body is (Space_removeJoint joint w))"

definition Space_removeBody :: "ref \<Rightarrow> world \<Rightarrow> world" where
  "Space_removeBody body w =
     (if hash_get (bodyHash w) (b_id (bodyObj w body)) = None then w
      else
        let w = removeBody_joints body (hash_keys (b_jointHash (bodyObj w body))) w;
            w = upd_body body (\<lambda>b. b\<lparr>b_space := False\<rparr>) w;
            w = w\<lparr>bodyHash := hash_delete (b_id (bodyObj w body)) (bodyHash w)\<rparr>;
            w = w\<lparr>numBodies := numBodies w - 1\<rparr>
        in w)"

definition Space_addJoint :: "ref \<Rightarrow> world \<Rightarrow> world" where
  "Space_addJoint joint w =
     (if hash_get (jointHash w) (j_id (jointObj w joint)) \<noteq> None then w
      else
        let jt = jointObj w joint;
            w = upd_body (j_body1 jt) (Body_awake True) w;
            w = upd_body (j_body2 jt) (Body_awake True) w;
            w = w\<lparr>jointHash := hash_set (j_id jt) joint (jointHash w)\<rparr>;
            w = w\<lparr>numJoints := numJoints w + 1\<rparr>;
            w = upd_body (j_body1 jt)
                  (\<lambda>b. b\<lparr>b_jointHash := hash_set (j_id jt) joint (b_jointHash b)\<rparr>) w;
            w = upd_body (j_body2 jt)
                  (\<lambda>b. b\<lparr>b_jointHash := hash_set (j_id jt) joint (b_jointHash b)\<rparr>) w
        in w)"

fun clear_bodies :: "nat list \<Rightarrow> world \<Rightarrow> world" where
  "clear_bodies [] w = w"
| "clear_bodies (i # is) w =
     (case hash_get (bodyHash w) i of
        None \<Rightarrow> clear_bodies is w
      | Some body \<Rightarrow> clear_bodies is (Space_removeBody body w))"

definition Space_clear :: "world \<Rightarrow> world" where
  "Space_clear w =
     (let w = w\<lparr>Shape_id_counter := 0, Body_id_counter := 0, Joint_id_counter := 0\<rparr>;
          w = clear_bodies (hash_keys (bodyHash w)) w;
          w = w\<lparr>contactSolverArr := []\<rparr>;
          w = w\<lparr>stepCount := Some (Num 0)\<rparr>
      in w)"

text \<open>
  The states that a Space goes through: it is constructed, bodies and joints are added and
  removed, it is cleared, and between these calls any code may change the objects of the
  store (the solvers do, and so may the application).
\<close>

inductive reachable :: "ext \<Rightarrow> world \<Rightarrow> bool" for x :: ext where
  constructed: "reachable x (Space st shape_ids body_ids joint_ids r)"
| addBody: "reachable x w \<Longrightarrow> reachable x (Space_addBody x body w)"
| removeBody: "reachable x w \<Longrightarrow> reachable x (Space_removeBody body w)"
| addJoint: "reachable x w \<Longrightarrow> reachable x (Space_addJoint joint w)"
| removeJoint: "reachable x w \<Longrightarrow> reachable x (Space_removeJoint joint w)"
| clear: "reachable x w \<Longrightarrow> reachable x (Space_clear w)"
| objects: "reachable x w \<Longrightarrow> reachable x (on_store g w)"


section \<open>Concrete states\<close>

text \<open>
  Two bodies and a rope between them, used to evaluate the definitions. In \<open>coincident\<close>
  both bodies sit at the origin and the rope's anchors are their centres, so that the two
  world anchors coincide. In \<open>taut\<close> the first body is immovable at the origin, the second
  is one unit to the right and moves away at unit speed, on a rope of length one half.
\<close>

definition body0 :: Body where
  "body0 = \<lparr>b_id = 0, b_type = Body_DYNAMIC, b_p = vec2_zero, b_a = Num 0, b_v = vec2_zero,
     b_w = Num 0, b_f = vec2_zero, b_t = Num 0, b_m = Num 1, b_m_inv = Num 1, b_i = Num 1,
     b_i_inv = Num 1,
     b_centroid = vec2_zero, b_awaked = True, b_sleepTime = Num 0, b_stepCount = None,
     b_shapeArr = [], b_jointHash = [], b_bounds = \<lparr>mins = vec2_zero, maxs = vec2_zero\<rparr>,
     b_space = False\<rparr>"

definition rope0 :: Joint where
  "rope0 = \<lparr>j_class = RopeJoint, j_id = 0, j_body1 = 0, j_body2 = 1, j_collideConnected = True,
     j_maxForce = Num 1, j_breakable = False, j_anchor1 = vec2_zero, j_anchor2 = vec2_zero,
     j_maxDistance = Num 0, j_lambda_acc = Num 0, j_maxImpulse = Num 0, j_r1 = vec2_zero,
     j_r2 = vec2_zero, j_distance = Num 0, j_cdt = Num 0,
     j_limitState = LIMIT_STATE_INACTIVE, j_u = vec2_zero, j_s1 = Num 0, j_s2 = Num 0,
     j_em = Num 0\<rparr>"

definition shape0 :: Shape where
  "shape0 = \<lparr>sh_id = 0, sh_type = Shape_TYPE_CIRCLE, sh_geometry = Circle vec2_zero (Num 1),
     sh_e = Num 0, sh_u = Num 1, sh_density = Num 1\<rparr>"

definition solver0 :: ContactSolver where
  "solver0 = \<lparr>cs_shape1 = 0, cs_shape2 = 0, cs_contactArr = [], cs_e = Num 0, cs_u = Num 0\<rparr>"

definition coincident :: store where
  "coincident = \<lparr>bodyObj = (\<lambda>_. body0), jointObj = (\<lambda>_. rope0),
     shapeObj = (\<lambda>_. shape0), contactSolverObj = (\<lambda>_. solver0)\<rparr>"

definition taut :: store where
  "taut = \<lparr>bodyObj = (\<lambda>r. if r = 0
                then body0\<lparr>b_type := Body_STATIC, b_m_inv := Num 0, b_i_inv := Num 0\<rparr>
                else body0\<lparr>b_id := 1, b_p := vec2_new (Num 1) (Num 0),
                             b_v := vec2_new (Num 1) (Num 0)\<rparr>),
            jointObj = (\<lambda>_. rope0\<lparr>j_maxDistance := Num (1 / 2),
                             j_u := vec2_new (Num 1) (Num 0), j_em := Num 1\<rparr>),
            shapeObj = (\<lambda>_. shape0), contactSolverObj = (\<lambda>_. solver0)\<rparr>"


text \<open>
  What the four registry methods keep true: each counter is the number of entries of its
  table, and the keys of a table are in strictly ascending order, hence distinct.
\<close>

definition Space_inv :: "world \<Rightarrow> bool" where
  "Space_inv w \<longleftrightarrow>
     numBodies w = int (length (bodyHash w)) \<and> sorted_wrt (<) (hash_keys (bodyHash w)) \<and>
     numJoints w = int (length (jointHash w)) \<and> sorted_wrt (<) (hash_keys (jointHash w))"

text \<open>
  A store in which the object at reference \<open>r\<close> has id \<open>r\<close>, trivial stand-ins for the
  missing code, a Space just constructed on that store, and the same Space after two bodies
  and the rope between them were added.
\<close>

definition contact0 :: Contact where
  "contact0 = \<lparr>c_p = vec2_zero, c_n = vec2_new (Num 1) (Num 0), c_d = Num 0, c_hash = 0,
     c_jn_acc = Num 0, c_jt_acc = Num 0\<rparr>"

definition ext0 :: ext where
  "ext0 = \<lparr>Body_cacheData = (\<lambda>_ st. st), Body_isCollidable = (\<lambda>_ _ _. True),
     Bounds_intersectsBounds = (\<lambda>_ _. True),
     collision_collide = (\<lambda>_ _ _. (True, [contact0])),
     ContactSolver_update = (\<lambda>_ _ st. st),
     ContactSolver_solvePositionConstraints = (\<lambda>_ st. (True, st)),
     Joint_solvePositionConstraints = (\<lambda>_ st. (True, st))\<rparr>"

definition objects :: store where
  "objects = \<lparr>bodyObj = (\<lambda>r. body0\<lparr>b_id := r\<rparr>), jointObj = (\<lambda>r. rope0\<lparr>j_id := r\<rparr>),
     shapeObj = (\<lambda>r. shape0\<lparr>sh_id := r\<rparr>), contactSolverObj = (\<lambda>_. solver0)\<rparr>"

definition fresh :: world where
  "fresh = Space objects 0 0 0 0"

definition registered :: world where
  "registered = Space_addJoint 0 (Space_addBody ext0 1 (Space_addBody ext0 0 fresh))"


section \<open>The position solver\<close>

text \<open>
  \<open>stats\<close> is a global object; of its fields only \<open>positionIterations\<close> is modelled (the
  others are wall-clock times). It is passed to \<open>positionSolver\<close> and returned by it.
\<close>

record Stats =
  positionIterations :: nat

text \<open>
  \<open>solvePositionConstraints\<close> of a contact solver is missing code; of a joint it is the rope
  joint's method above when the joint is a rope, and missing code for the other classes.
\<close>

definition ContactSolver_solvePos :: "ext \<Rightarrow> ref \<Rightarrow> world \<Rightarrow> bool \<times> world" where
  "ContactSolver_solvePos x c w = on_store_result (ContactSolver_solvePositionConstraints x c) w"

definition Joint_solvePos :: "ext \<Rightarrow> ref \<Rightarrow> world \<Rightarrow> bool \<times> world" where
  "Joint_solvePos x joint w =
     (if j_class (jointObj w joint) = RopeJoint then RopeJoint_solvePositionConstraints joint w
      else on_store_result (Joint_solvePositionConstraints x joint) w)"

text \<open>
  The two inner loops of \<open>positionSolver\<close>, with the flag that each accumulates
  (\<open>contactsOk = contactOk && contactsOk\<close>: the solver is called before the flag is read).
\<close>

fun solve_contacts :: "ext \<Rightarrow> ref list \<Rightarrow> bool \<Rightarrow> world \<Rightarrow> bool \<times> world" where
  "solve_contacts x [] contactsOk w = (contactsOk, w)"
| "solve_contacts x (c # cs) contactsOk w =
     (let (contactOk, w) = ContactSolver_solvePos x c w
      in solve_contacts x cs (contactOk \<and> contactsOk) w)"

fun solve_joints :: "ext \<Rightarrow> ref list \<Rightarrow> bool \<Rightarrow> world \<Rightarrow> bool \<times> world" where
  "solve_joints x [] jointsOk w = (jointsOk, w)"
| "solve_joints x (j # js) jointsOk w =
     (let (jointOk, w) = Joint_solvePos x j w
      in solve_joints x js (jointOk \<and> jointsOk) w)"

text \<open>
  The outer loop, \<open>for (i = 0; i < iteration; i++)\<close>, by recursion on the rounds that remain;
  \<open>break\<close> is the branch that does not recurse.
\<close>

fun positionSolver_loop :: "ext \<Rightarrow> nat \<Rightarrow> Stats \<times> world \<Rightarrow> bool \<times> Stats \<times> world" where
  "positionSolver_loop x 0 (stats, w) = (False, stats, w)"
| "positionSolver_loop x (Suc n) (stats, w) =
     (let (contactsOk, w) = solve_contacts x (contactSolverArr w) True w;
          (jointsOk, w) = solve_joints x (map snd (jointHash w)) True w
      in if contactsOk \<and> jointsOk then (True, stats, w)
         else positionSolver_loop x n
                (stats\<lparr>positionIterations := positionIterations stats + 1\<rparr>, w))"

definition Space_positionSolver :: "ext \<Rightarrow> nat \<Rightarrow> Stats \<times> world \<Rightarrow> bool \<times> Stats \<times> world" where
  "Space_positionSolver x iteration sw =
     positionSolver_loop x iteration ((fst sw)\<lparr>positionIterations := 0\<rparr>, snd sw)"

text \<open>
  The spec's description of the position solver (4.5, step 9), for comparison with the loop
  above: a round solves all contact solvers, then all joints, each of which reports whether
  it is OK; \<open>spec_after_rounds k\<close> is the state after \<open>k\<close> rounds, and \<open>spec_round_ok k\<close> says
  that the round run after \<open>k\<close> rounds ends with every report OK.
\<close>

fun spec_reports :: "('e \<Rightarrow> world \<Rightarrow> bool \<times> world) \<Rightarrow> 'e list \<Rightarrow> world \<Rightarrow> bool list \<times> world" where
  "spec_reports solve [] w = ([], w)"
| "spec_reports solve (e # es) w =
     (let (ok, w) = solve e w; (oks, w) = spec_reports solve es w in (ok # oks, w))"

definition spec_position_round :: "ext \<Rightarrow> world \<Rightarrow> bool \<times> world" where
  "spec_position_round x w =
     (let (contacts, w) = spec_reports (ContactSolver_solvePos x) (contactSolverArr w) w;
          (joints, w) = spec_reports (Joint_solvePos x) (map snd (jointHash w)) w
      in (list_all id contacts \<and> list_all id joints, w))"

definition spec_after_rounds :: "ext \<Rightarrow> nat \<Rightarrow> world \<Rightarrow> world" where
  "spec_after_rounds x k w = ((\<lambda>w. snd (spec_position_round x w)) ^^ k) w"

definition spec_round_ok :: "ext \<Rightarrow> nat \<Rightarrow> world \<Rightarrow> bool" where
  "spec_round_ok x k w = fst (spec_position_round x (spec_after_rounds x k w))"

text \<open>
  A stand-in contact solver that resolves one contact point per call and reports OK once
  none is left, and a Space with one contact solver that holds two contact points.
\<close>

definition ext1 :: ext where
  "ext1 = ext0\<lparr>ContactSolver_solvePositionConstraints :=
     (\<lambda>c st. (cs_contactArr (contactSolverObj st c) = [],
               st\<lparr>contactSolverObj := (contactSolverObj st)
                     (c := (contactSolverObj st c)
                        \<lparr>cs_contactArr := tl (cs_contactArr (contactSolverObj st c))\<rparr>)\<rparr>))\<rparr>"

definition stacked :: world where
  "stacked = fresh\<lparr>contactSolverObj := (\<lambda>_. solver0\<lparr>cs_contactArr := [contact0, contact0]\<rparr>),
                   contactSolverArr := [0]\<rparr>"

definition stats0 :: Stats where
  "stats0 = \<lparr>positionIterations = 7\<rparr>"


section \<open>The step: velocity integration with damping\<close>



text \<open>
  Modelled from the spec: \<open>Body.updateVelocity(gravity, damping, dt)\<close> is not among the
  sources; it applies \<open>v \<leftarrow> damping\<cdot>(v + dt\<cdot>(gravity + f/m))\<close> and
  \<open>w \<leftarrow> damping\<cdot>(w + dt\<cdot>\<tau>/i)\<close> (4.1).
\<close>

definition Body_updateVelocity :: "vec2 \<Rightarrow> jsnum \<Rightarrow> jsnum \<Rightarrow> Body \<Rightarrow> Body" where
  "Body_updateVelocity g damp dt b =
     b\<lparr>b_v := vec2_scale
                (vec2_add (b_v b)
                   (vec2_scale
                      (vec2_add g (vec2_new (xc (b_f b) / b_m b) (yc (b_f b) / b_m b))) dt))
                damp,
       b_w := damp * (b_w b + dt * b_t b / b_i b)\<rparr>"

text \<open>
  The part of \<open>Space.step\<close> under the comment "Intergrate velocity": the damping factor of
  the step, and the loop over the table of bodies.
\<close>

fun integrate_velocity :: "jsnum \<Rightarrow> jsnum \<Rightarrow> ref list \<Rightarrow> world \<Rightarrow> world" where
  "integrate_velocity damp dt [] w = w"
| "integrate_velocity damp dt (body # bs) w =
     integrate_velocity damp dt bs
       (if Body_isDynamic (bodyObj w body) \<and> Body_isAwake (bodyObj w body)
        then upd_body body (Body_updateVelocity (gravity w) damp dt) w
        else w)"





section \<open>The step: sleep accounting\<close>

text \<open>
  Modelled from the spec: \<open>deg2rad\<close> is a helper of the missing utility file; it converts
  degrees to radians, the unit of the angular tolerance (spec section 6, constants).
\<close>

definition deg2rad :: "jsnum \<Rightarrow> jsnum" where
  "deg2rad deg = deg / Num 180 * Num pi"

text \<open>The three constants of \<open>Space\<close>.\<close>

definition Space_TIME_TO_SLEEP :: jsnum where
  "Space_TIME_TO_SLEEP = Num 0.5"

definition Space_SLEEP_LINEAR_TOLERANCE :: jsnum where
  "Space_SLEEP_LINEAR_TOLERANCE = Num 0.5"

definition Space_SLEEP_ANGULAR_TOLERANCE :: jsnum where
  "Space_SLEEP_ANGULAR_TOLERANCE = deg2rad (Num 2)"

text \<open>
  The part of \<open>Space.step\<close> under the comment "Process sleeping". \<open>linTolSqr\<close> and
  \<open>angTolSqr\<close> are its two local constants, \<open>sleep_times\<close> is its first loop, which also
  computes \<open>minSleepTime\<close>, and \<open>sleep_all\<close> is its second loop.
\<close>

definition linTolSqr :: jsnum where
  "linTolSqr = Space_SLEEP_LINEAR_TOLERANCE * Space_SLEEP_LINEAR_TOLERANCE"

definition angTolSqr :: jsnum where
  "angTolSqr = Space_SLEEP_ANGULAR_TOLERANCE * Space_SLEEP_ANGULAR_TOLERANCE"

fun sleep_times :: "jsnum \<Rightarrow> ref list \<Rightarrow> jsnum \<Rightarrow> world \<Rightarrow> jsnum \<times> world" where
  "sleep_times dt [] minSleepTime w = (minSleepTime, w)"
| "sleep_times dt (body # bs) minSleepTime w =
     (if \<not> Body_isDynamic (bodyObj w body) then sleep_times dt bs minSleepTime w
      else if angTolSqr < b_w (bodyObj w body) * b_w (bodyObj w body)
              \<or> linTolSqr < vec2_dot (b_v (bodyObj w body)) (b_v (bodyObj w body))
      then sleep_times dt bs (Num 0) (upd_body body (\<lambda>b. b\<lparr>b_sleepTime := Num 0\<rparr>) w)
      else
        let w = upd_body body (\<lambda>b. b\<lparr>b_sleepTime := b_sleepTime b + dt\<rparr>) w
        in sleep_times dt bs (Math_min minSleepTime (b_sleepTime (bodyObj w body))) w)"

fun sleep_all :: "ref list \<Rightarrow> world \<Rightarrow> world" where
  "sleep_all [] w = w"
| "sleep_all (body # bs) w = sleep_all bs (upd_body body (Body_awake False) w)"

definition Space_step_sleep :: "jsnum \<Rightarrow> bool \<Rightarrow> bool \<Rightarrow> world \<Rightarrow> world" where
  "Space_step_sleep dt positionSolved allowSleep w =
     (if allowSleep then
        let (minSleepTime, w) = sleep_times dt (map snd (bodyHash w)) (Num 999999) w
        in if positionSolved \<and> Space_TIME_TO_SLEEP \<le> minSleepTime
           then sleep_all (map snd (bodyHash w)) w
           else w
      else w)"

text \<open>The test of the first loop: the body exceeds a sleep tolerance.\<close>

definition moving :: "Body \<Rightarrow> bool" where
  "moving b \<longleftrightarrow> angTolSqr < b_w b * b_w b \<or> linTolSqr < vec2_dot (b_v b) (b_v b)"

text \<open>
  A Space with one body at rest, one with a body that moves faster than the linear
  tolerance and has slept a quarter of a second, and one with a body at rest whose angular
  velocity is \<open>NaN\<close>.
\<close>

definition resting :: world where
  "resting = Space_addBody ext0 0 fresh"

definition drifting :: world where
  "drifting = resting
     \<lparr>bodyObj := (\<lambda>r. body0\<lparr>b_id := r, b_v := vec2_new (Num 1) (Num 0), b_w := Num 1,
                               b_sleepTime := Num (1 / 4)\<rparr>)\<rparr>"

definition spinning :: world where
  "spinning = resting\<lparr>bodyObj := (\<lambda>r. body0\<lparr>b_id := r, b_w := NaN\<rparr>)\<rparr>"


section \<open>The step: generation of contact solvers\<close>

text \<open>
  \<open>Math.max\<close>; the operator \<open>==\<close> on two values that are numbers or undefined (\<open>None\<close>); and
  \<open>++\<close>, which turns undefined into \<open>NaN\<close> before it adds one.
\<close>

fun Math_max :: "jsnum \<Rightarrow> jsnum \<Rightarrow> jsnum" where
  "Math_max NaN _ = NaN"
| "Math_max _ NaN = NaN"
| "Math_max a b = (if a < b then b else a)"

fun js_loose_eq :: "jsnum option \<Rightarrow> jsnum option \<Rightarrow> bool" where
  "js_loose_eq None None = True"
| "js_loose_eq (Some a) (Some b) = js_eq a b"
| "js_loose_eq _ _ = False"

fun js_increment :: "jsnum option \<Rightarrow> jsnum option" where
  "js_increment None = Some NaN"
| "js_increment (Some a) = Some (a + Num 1)"

text \<open>\<open>findContactSolver\<close>: the first solver of the Space's array for the two shapes.\<close>

fun findContactSolver_from :: "world \<Rightarrow> ref list \<Rightarrow> ref \<Rightarrow> ref \<Rightarrow> ref option" where
  "findContactSolver_from w [] shape1 shape2 = None"
| "findContactSolver_from w (c # cs) shape1 shape2 =
     (if shape1 = cs_shape1 (contactSolverObj w c) \<and> shape2 = cs_shape2 (contactSolverObj w c)
      then Some c
      else findContactSolver_from w cs shape1 shape2)"

definition Space_findContactSolver :: "ref \<Rightarrow> ref \<Rightarrow> world \<Rightarrow> ref option" where
  "Space_findContactSolver shape1 shape2 w =
     findContactSolver_from w (contactSolverArr w) shape1 shape2"

text \<open>
  The state of \<open>genTemporalContactSolvers\<close>: the array it builds and the program state.
  \<open>examined\<close> is not a variable of the source: it records, in order, the pairs of bodies
  that pass the test on \<open>stepCount\<close>, so that the property of these pairs can be stated.
\<close>

record broadphase =
  newContactSolverArr :: "ref list"
  examined :: "(ref \<times> ref) list"
  bp_world :: world

text \<open>
  Modelled from the spec: the constructor \<open>ContactSolver(shape1, shape2)\<close> is missing; it
  stores the two shapes (3). The rest of \<open>gen_shapes\<close> is the body of the two loops over
  the shapes of a pair of bodies, as the source has it.
\<close>

definition gen_shapes :: "ext \<Rightarrow> ref \<Rightarrow> ref \<Rightarrow> ref \<Rightarrow> ref \<Rightarrow> broadphase \<Rightarrow> broadphase" where
  "gen_shapes x body1 body2 s1 s2 bp =
     (let w = bp_world bp;
          (hit, contactArr) = collision_collide x s1 s2 (store.truncate w)
      in if \<not> hit then bp
         else
           let w = w\<lparr>numContacts := numContacts w + int (length contactArr)\<rparr>;
               shape1 = (if sh_type (shapeObj w s2) < sh_type (shapeObj w s1) then s2 else s1);
               shape2 = (if sh_type (shapeObj w s2) < sh_type (shapeObj w s1) then s1 else s2)
           in case Space_findContactSolver shape1 shape2 w of
                Some contactSolver \<Rightarrow>
                  bp\<lparr>newContactSolverArr := newContactSolverArr bp @ [contactSolver],
                     bp_world := on_store (ContactSolver_update x contactSolver contactArr) w\<rparr>
              | None \<Rightarrow>
                  let w = upd_body body1 (Body_awake True) w;
                      w = upd_body body2 (Body_awake True) w;
                      newContactSolver = nextRef w;
                      w = w\<lparr>nextRef := nextRef w + 1\<rparr>;
                      w = w\<lparr>contactSolverObj := (contactSolverObj w)(newContactSolver :=
                             \<lparr>cs_shape1 = shape1, cs_shape2 = shape2, cs_contactArr = contactArr,
                              cs_e = Math_max (sh_e (shapeObj w shape1)) (sh_e (shapeObj w shape2)),
                              cs_u = Math_sqrt (sh_u (shapeObj w shape1)
                                                * sh_u (shapeObj w shape2))\<rparr>)\<rparr>
                  in bp\<lparr>newContactSolverArr := newContactSolverArr bp @ [newContactSolver],
                        bp_world := w\<rparr>)"

fun gen_shapes_j :: "ext \<Rightarrow> ref \<Rightarrow> ref \<Rightarrow> ref \<Rightarrow> ref list \<Rightarrow> broadphase \<Rightarrow> broadphase" where
  "gen_shapes_j x body1 body2 s1 [] bp = bp"
| "gen_shapes_j x body1 body2 s1 (s2 # ss) bp =
     gen_shapes_j x body1 body2 s1 ss (gen_shapes x body1 body2 s1 s2 bp)"

fun gen_shapes_i :: "ext \<Rightarrow> ref \<Rightarrow> ref \<Rightarrow> ref list \<Rightarrow> broadphase \<Rightarrow> broadphase" where
  "gen_shapes_i x body1 body2 [] bp = bp"
| "gen_shapes_i x body1 body2 (s1 # ss) bp =
     gen_shapes_i x body1 body2 ss
       (gen_shapes_j x body1 body2 s1 (b_shapeArr (bodyObj (bp_world bp) body2)) bp)"

text \<open>The body of the inner loop over the bodies: the four tests, then the shapes.\<close>

definition gen_pair :: "ext \<Rightarrow> ref \<Rightarrow> ref \<Rightarrow> broadphase \<Rightarrow> broadphase" where
  "gen_pair x body1 body2 bp =
     (let w = bp_world bp
      in if js_loose_eq (b_stepCount (bodyObj w body1)) (b_stepCount (bodyObj w body2)) then bp
         else
           let bp = bp\<lparr>examined := examined bp @ [(body1, body2)]\<rparr>;
               active1 = (Body_isAwake (bodyObj w body1) \<and> \<not> Body_isStatic (bodyObj w body1));
               active2 = (Body_isAwake (bodyObj w body2) \<and> \<not> Body_isStatic (bodyObj w body2))
           in if \<not> active1 \<and> \<not> active2 then bp
              else if \<not> Body_isCollidable x body1 body2 (store.truncate w) then bp
              else if \<not> Bounds_intersectsBounds x (b_bounds (bodyObj w body1))
                           (b_bounds (bodyObj w body2)) then bp
              else gen_shapes_i x body1 body2 (b_shapeArr (bodyObj w body1)) bp)"

fun gen_inner :: "ext \<Rightarrow> ref \<Rightarrow> ref list \<Rightarrow> broadphase \<Rightarrow> broadphase" where
  "gen_inner x body1 [] bp = bp"
| "gen_inner x body1 (body2 # bs) bp = gen_inner x body1 bs (gen_pair x body1 body2 bp)"

fun gen_outer :: "ext \<Rightarrow> ref list \<Rightarrow> broadphase \<Rightarrow> broadphase" where
  "gen_outer x [] bp = bp"
| "gen_outer x (body1 # bs) bp =
     gen_outer x bs
       (let w = bp_world bp;
            w = upd_body body1 (\<lambda>b. b\<lparr>b_stepCount := stepCount w\<rparr>) w
        in gen_inner x body1 (map snd (bodyHash w)) (bp\<lparr>bp_world := w\<rparr>))"

definition Space_genTemporalContactSolvers :: "ext \<Rightarrow> world \<Rightarrow> broadphase" where
  "Space_genTemporalContactSolvers x w =
     gen_outer x (map snd (bodyHash w))
       \<lparr>newContactSolverArr = [], examined = [], bp_world = w\<lparr>numContacts := 0\<rparr>\<rparr>"

text \<open>
  The first two statements of \<open>Space.step\<close>: \<open>this.stepCount++\<close> and the assignment of the
  generated array to \<open>this.contactSolverArr\<close>.
\<close>

definition Space_step_generate :: "ext \<Rightarrow> world \<Rightarrow> broadphase" where
  "Space_step_generate x w =
     (let w = w\<lparr>stepCount := js_increment (stepCount w)\<rparr>;
          bp = Space_genTemporalContactSolvers x w
      in bp\<lparr>bp_world := (bp_world bp)\<lparr>contactSolverArr := newContactSolverArr bp\<rparr>\<rparr>)"

text \<open>
  Two awake dynamic bodies with one circle each, in a Space that was constructed and never
  cleared, and in a Space that was cleared before the bodies were added.
\<close>

definition shaped :: store where
  "shaped = \<lparr>bodyObj = (\<lambda>r. body0\<lparr>b_id := r, b_shapeArr := [r]\<rparr>),
     jointObj = (\<lambda>r. rope0\<lparr>j_id := r\<rparr>),
     shapeObj = (\<lambda>r. shape0\<lparr>sh_id := r\<rparr>), contactSolverObj = (\<lambda>_. solver0)\<rparr>"

definition unstepped :: world where
  "unstepped = Space_addBody ext0 1 (Space_addBody ext0 0 (Space shaped 0 0 0 0))"

definition restarted :: world where
  "restarted = Space_addBody ext0 1 (Space_addBody ext0 0 (Space_clear (Space shaped 0 0 0 0)))"

section \<open>Scenes: loading and serialization\<close>

text \<open>
  The only error that \<open>create\<close> raises once the text is parsed: a property of \<open>undefined\<close> is
  read or written.
\<close>

datatype js_error = TypeError

text \<open>
  The parsed scene (spec section 6): bodies with their shapes, and joints. An entry of
  \<open>joints\<close> has the fields of its kind only; a field that may be absent is an option.
\<close>

record ConfigShape =
  cfs_type :: string
  cfs_center :: vec2
  cfs_radius :: jsnum
  cfs_a :: vec2
  cfs_b :: vec2
  cfs_verts :: "vec2 list"
  cfs_e :: jsnum
  cfs_u :: jsnum
  cfs_density :: jsnum

record ConfigBody =
  cfb_type :: string
  cfb_position :: vec2
  cfb_angle :: jsnum
  cfb_shapes :: "ConfigShape list"

record ConfigJoint =
  cfj_type :: string
  cfj_body1 :: nat
  cfj_body2 :: nat
  cfj_anchor :: "vec2 option"
  cfj_anchor1 :: "vec2 option"
  cfj_anchor2 :: "vec2 option"
  cfj_limitEnabled :: "bool option"
  cfj_limitLowerAngle :: "jsnum option"
  cfj_limitUpperAngle :: "jsnum option"
  cfj_motorEnabled :: "bool option"
  cfj_motorSpeed :: "jsnum option"
  cfj_maxMotorTorque :: "jsnum option"
  cfj_frequencyHz :: "jsnum option"
  cfj_dampingRatio :: "jsnum option"
  cfj_collideConnected :: bool
  cfj_maxForce :: jsnum
  cfj_breakable :: bool

record Config =
  cfg_bodies :: "ConfigBody list"
  cfg_joints :: "ConfigJoint list"

text \<open>
  Modelled from the spec: the missing code that loading and serialization call, as further
  parameters. The constructor of \<open>Body\<close> takes kind, position and angle (3, 6);
  \<open>resetMassData\<close> recomputes mass and inertia (4.1); \<open>getWorldPoint\<close> maps a local point to
  world coordinates; \<open>serialize\<close> of a body and of the joints other than the rope gives their
  entry of the scene (6); \<open>Joint_new\<close> stands for the constructor of a joint class and the
  setters that \<open>create\<close> calls after it.
\<close>

record scene_ext = ext +
  Body_new :: "body_type \<Rightarrow> jsnum \<Rightarrow> jsnum \<Rightarrow> jsnum \<Rightarrow> Body"
  Body_resetMassData :: "ref \<Rightarrow> store \<Rightarrow> store"
  Body_getWorldPoint :: "Body \<Rightarrow> vec2 \<Rightarrow> vec2"
  Body_serialize :: "ref \<Rightarrow> store \<Rightarrow> ConfigBody"
  Joint_new :: "joint_class \<Rightarrow> ConfigJoint \<Rightarrow> ref \<Rightarrow> ref \<Rightarrow> store \<Rightarrow> Joint"
  Joint_serialize :: "ref \<Rightarrow> store \<Rightarrow> ConfigJoint"

text \<open>
  Modelled from the spec: the constructors of the three shape classes store the geometry
  and take the id from the counter of \<open>Shape\<close> (3); \<open>create\<close> sets the material at once.
  \<open>new\<close> allocates the object at the next unused reference; the id of a body and of a joint
  comes from the counter of its class (3).
\<close>

definition Shape_new :: "nat \<Rightarrow> geometry \<Rightarrow> nat \<Rightarrow> Shape" where
  "Shape_new ty g i =
     \<lparr>sh_id = i, sh_type = ty, sh_geometry = g, sh_e = Num 0, sh_u = Num 0, sh_density = Num 0\<rparr>"

definition new_Shape :: "nat \<Rightarrow> geometry \<Rightarrow> world \<Rightarrow> ref \<times> world" where
  "new_Shape ty g w =
     (nextRef w,
      w\<lparr>shapeObj := (shapeObj w)(nextRef w := Shape_new ty g (Shape_id_counter w)),
        Shape_id_counter := Shape_id_counter w + 1,
        nextRef := nextRef w + 1\<rparr>)"

definition new_Body ::
  "scene_ext \<Rightarrow> body_type \<Rightarrow> jsnum \<Rightarrow> jsnum \<Rightarrow> jsnum \<Rightarrow> world \<Rightarrow> ref \<times> world" where
  "new_Body x ty px py angle w =
     (nextRef w,
      w\<lparr>bodyObj := (bodyObj w)(nextRef w := (Body_new x ty px py angle)
                                     \<lparr>b_id := Body_id_counter w\<rparr>),
        Body_id_counter := Body_id_counter w + 1,
        nextRef := nextRef w + 1\<rparr>)"

text \<open>
  Modelled from the spec: a joint refers to its two bodies (3). The constructor is called
  with bodies that exist; see \<open>create_joints\<close> for the other case.
\<close>

definition new_Joint ::
  "scene_ext \<Rightarrow> joint_class \<Rightarrow> ConfigJoint \<Rightarrow> ref \<Rightarrow> ref \<Rightarrow> world \<Rightarrow> ref \<times> world" where
  "new_Joint x cls cj body1 body2 w =
     (nextRef w,
      w\<lparr>jointObj := (jointObj w)(nextRef w :=
            (Joint_new x cls cj body1 body2 (store.truncate w))
              \<lparr>j_class := cls, j_id := Joint_id_counter w, j_body1 := body1,
               j_body2 := body2\<rparr>),
        Joint_id_counter := Joint_id_counter w + 1,
        nextRef := nextRef w + 1\<rparr>)"

text \<open>Modelled from the spec: \<open>addShape\<close> appends to the ordered list of shapes (3, 4.1).\<close>

definition Body_addShape :: "ref \<Rightarrow> Body \<Rightarrow> Body" where
  "Body_addShape shape b = b\<lparr>b_shapeArr := b_shapeArr b @ [shape]\<rparr>"

definition upd_shape :: "ref \<Rightarrow> (Shape \<Rightarrow> Shape) \<Rightarrow> 'a store_scheme \<Rightarrow> 'a store_scheme" where
  "upd_shape r g s = s\<lparr>shapeObj := (shapeObj s)(r := g (shapeObj s r))\<rparr>"

text \<open>The switch on the kind of a shape; without a matching case, shape keeps its value.\<close>

definition switch_shape :: "ConfigShape \<Rightarrow> ref option \<Rightarrow> world \<Rightarrow> ref option \<times> world" where
  "switch_shape cs shape w =
     (if cfs_type cs = ''ShapeCircle''
      then (let (r, w) = new_Shape Shape_TYPE_CIRCLE (Circle (cfs_center cs) (cfs_radius cs)) w
            in (Some r, w))
      else if cfs_type cs = ''ShapeSegment''
      then (let (r, w) = new_Shape Shape_TYPE_SEGMENT
                           (Segment (cfs_a cs) (cfs_b cs) (cfs_radius cs)) w
            in (Some r, w))
      else if cfs_type cs = ''ShapePoly''
      then (let (r, w) = new_Shape Shape_TYPE_POLY (Poly (cfs_verts cs)) w in (Some r, w))
      else (shape, w))"

text \<open>
  The loop over the shapes of a body. \<open>shape\<close> is declared with \<open>var\<close> inside the loop, so it
  is one variable of the whole function: a round whose switch matches no case finds in it
  the shape of the round before, or undefined in the first round of the call, and then
  \<open>shape.e = ...\<close> raises a TypeError.
\<close>

fun create_shapes ::
  "ref \<Rightarrow> ConfigShape list \<Rightarrow> ref option \<times> world \<Rightarrow> js_error option \<times> ref option \<times> world" where
  "create_shapes body [] (shape, w) = (None, shape, w)"
| "create_shapes body (cs # css) (shape, w) =
     (let (shape, w) = switch_shape cs shape w
      in case shape of
           None \<Rightarrow> (Some TypeError, shape, w)
         | Some sh \<Rightarrow>
             let w = upd_shape sh (\<lambda>s. s\<lparr>sh_e := cfs_e cs\<rparr>) w;
                 w = upd_shape sh (\<lambda>s. s\<lparr>sh_u := cfs_u cs\<rparr>) w;
                 w = upd_shape sh (\<lambda>s. s\<lparr>sh_density := cfs_density cs\<rparr>) w;
                 w = upd_body body (Body_addShape sh) w
             in create_shapes body css (shape, w))"

fun create_bodies ::
  "scene_ext \<Rightarrow> ConfigBody list \<Rightarrow> ref option \<times> world \<Rightarrow> js_error option \<times> ref option \<times> world" where
  "create_bodies x [] (shape, w) = (None, shape, w)"
| "create_bodies x (cb # cbs) (shape, w) =
     (let ty = (if cfb_type cb = ''static'' then Body_STATIC else Body_DYNAMIC);
          (body, w) = new_Body x ty (xc (cfb_position cb)) (yc (cfb_position cb)) (cfb_angle cb) w
      in case create_shapes body (cfb_shapes cb) (shape, w) of
           (Some e, shape, w) \<Rightarrow> (Some e, shape, w)
         | (None, shape, w) \<Rightarrow>
             let w = on_store (Body_resetMassData x body) w;
                 w = Space_addBody (ext.truncate x) body w
             in create_bodies x cbs (shape, w))"

definition joint_class_of :: "string \<Rightarrow> joint_class option" where
  "joint_class_of ty =
     (if ty = ''AngleJoint'' then Some AngleJoint
      else if ty = ''RevoluteJoint'' then Some RevoluteJoint
      else if ty = ''WeldJoint'' then Some WeldJoint
      else if ty = ''DistanceJoint'' then Some DistanceJoint
      else if ty = ''LineJoint'' then Some LineJoint
      else if ty = ''PrismaticJoint'' then Some PrismaticJoint
      else None)"

text \<open>
  Modelled from the spec: the constructors of the six joint classes are missing. A
  constructor that is given an undefined body raises a TypeError when it first reads a field
  of the body, as the constructor of \<open>RopeJoint\<close> does in its second statement; if one did
  not, \<open>addJoint\<close> would, at \<open>joint.body1.awake(true)\<close>, with the tables unchanged.
  The rest is the loop over the joints as the source has it; \<open>joint\<close> is one variable of
  the whole function, as \<open>shape\<close> is.
\<close>

fun create_joints ::
  "scene_ext \<Rightarrow> ConfigJoint list \<Rightarrow> ref option \<times> world \<Rightarrow> js_error option \<times> ref option \<times> world" where
  "create_joints x [] (joint, w) = (None, joint, w)"
| "create_joints x (cj # cjs) (joint, w) =
     (let body1 = hash_get (bodyHash w) (cfj_body1 cj);
          body2 = hash_get (bodyHash w) (cfj_body2 cj)
      in case (case joint_class_of (cfj_type cj) of
                 None \<Rightarrow> (None, joint, w)
               | Some cls \<Rightarrow>
                   (case (body1, body2) of
                      (Some b1, Some b2) \<Rightarrow>
                        (let (r, w) = new_Joint x cls cj b1 b2 w in (None, Some r, w))
                    | _ \<Rightarrow> (Some TypeError, joint, w))) of
           (Some e, joint, w) \<Rightarrow> (Some e, joint, w)
         | (None, None, w) \<Rightarrow> (Some TypeError, None, w)
         | (None, Some jt, w) \<Rightarrow>
             let w = upd_joint jt (\<lambda>j. j\<lparr>j_collideConnected := cfj_collideConnected cj\<rparr>) w;
                 w = upd_joint jt (\<lambda>j. j\<lparr>j_maxForce := cfj_maxForce cj\<rparr>) w;
                 w = upd_joint jt (\<lambda>j. j\<lparr>j_breakable := cfj_breakable cj\<rparr>) w;
                 w = Space_addJoint jt w
             in create_joints x cjs (Some jt, w))"

definition Space_create :: "scene_ext \<Rightarrow> Config \<Rightarrow> world \<Rightarrow> js_error option \<times> world" where
  "Space_create x config w =
     (let w = Space_clear w
      in case create_bodies x (cfg_bodies config) (None, w) of
           (Some e, shape, w) \<Rightarrow> (Some e, w)
         | (None, shape, w) \<Rightarrow>
             (case create_joints x (cfg_joints config) (None, w) of
                (e, joint, w) \<Rightarrow> (e, w)))"

text \<open>\<open>RopeJoint.serialize\<close>, the dispatch on the class of a joint, and \<open>Space.toJSON\<close>.\<close>

definition RopeJoint_serialize :: "scene_ext \<Rightarrow> ref \<Rightarrow> world \<Rightarrow> ConfigJoint" where
  "RopeJoint_serialize x this w =
     (let jt = jointObj w this;
          body1 = bodyObj w (j_body1 jt);
          body2 = bodyObj w (j_body2 jt)
      in \<lparr>cfj_type = ''RopeJoint'', cfj_body1 = b_id body1, cfj_body2 = b_id body2,
          cfj_anchor = None,
          cfj_anchor1 = Some (Body_getWorldPoint x body1 (j_anchor1 jt)),
          cfj_anchor2 = Some (Body_getWorldPoint x body2 (j_anchor2 jt)),
          cfj_limitEnabled = None, cfj_limitLowerAngle = None, cfj_limitUpperAngle = None,
          cfj_motorEnabled = None, cfj_motorSpeed = None, cfj_maxMotorTorque = None,
          cfj_frequencyHz = None, cfj_dampingRatio = None,
          cfj_collideConnected = j_collideConnected jt, cfj_maxForce = j_maxForce jt,
          cfj_breakable = j_breakable jt\<rparr>)"

definition Joint_serialize_dispatch :: "scene_ext \<Rightarrow> ref \<Rightarrow> world \<Rightarrow> ConfigJoint" where
  "Joint_serialize_dispatch x joint w =
     (if j_class (jointObj w joint) = RopeJoint then RopeJoint_serialize x joint w
      else Joint_serialize x joint (store.truncate w))"

definition Space_toJSON :: "scene_ext \<Rightarrow> world \<Rightarrow> Config" where
  "Space_toJSON x w =
     \<lparr>cfg_bodies = map (\<lambda>body. Body_serialize x body (store.truncate w)) (map snd (bodyHash w)),
      cfg_joints = map (\<lambda>joint. Joint_serialize_dispatch x joint w) (map snd (jointHash w))\<rparr>"

text \<open>The two tables of the Space and their counters.\<close>

definition Space_registry :: "world \<Rightarrow> (nat \<times> ref) list \<times> int \<times> (nat \<times> ref) list \<times> int" where
  "Space_registry w = (bodyHash w, numBodies w, jointHash w, numJoints w)"

text \<open>
  Scene entries, stand-ins for the missing code of loading and serialization, a Space
  whose objects so far are below reference 10, the same with two bodies and a rope between
  them, and four scenes with one faulty entry each; in the last one the faulty shape
  belongs to the second body, and the first body has no shape.
\<close>

definition circle_cfg :: ConfigShape where
  "circle_cfg = \<lparr>cfs_type = ''ShapeCircle'', cfs_center = vec2_zero, cfs_radius = Num 1,
     cfs_a = vec2_zero, cfs_b = vec2_zero, cfs_verts = [], cfs_e = Num 0, cfs_u = Num 1,
     cfs_density = Num 1\<rparr>"

definition body_cfg :: ConfigBody where
  "body_cfg = \<lparr>cfb_type = ''dynamic'', cfb_position = vec2_zero, cfb_angle = Num 0,
     cfb_shapes = [circle_cfg]\<rparr>"

definition joint_cfg :: "string \<Rightarrow> nat \<Rightarrow> nat \<Rightarrow> ConfigJoint" where
  "joint_cfg ty i j = \<lparr>cfj_type = ty, cfj_body1 = i, cfj_body2 = j, cfj_anchor = None,
     cfj_anchor1 = Some vec2_zero, cfj_anchor2 = Some vec2_zero, cfj_limitEnabled = None,
     cfj_limitLowerAngle = None, cfj_limitUpperAngle = None, cfj_motorEnabled = None,
     cfj_motorSpeed = None, cfj_maxMotorTorque = None, cfj_frequencyHz = None,
     cfj_dampingRatio = None, cfj_collideConnected = False, cfj_maxForce = Num 1,
     cfj_breakable = False\<rparr>"

definition sx0 :: scene_ext where
  "sx0 = \<lparr>Body_cacheData = (\<lambda>_ st. st), Body_isCollidable = (\<lambda>_ _ _. True),
     Bounds_intersectsBounds = (\<lambda>_ _. True),
     collision_collide = (\<lambda>_ _ _. (True, [contact0])),
     ContactSolver_update = (\<lambda>_ _ st. st),
     ContactSolver_solvePositionConstraints = (\<lambda>_ st. (True, st)),
     Joint_solvePositionConstraints = (\<lambda>_ st. (True, st)),
     Body_new = (\<lambda>ty px py a. body0\<lparr>b_type := ty, b_p := vec2_new px py, b_a := a\<rparr>),
     Body_resetMassData = (\<lambda>_ st. st),
     Body_getWorldPoint = (\<lambda>b p. vec2_add (b_p b) p),
     Body_serialize = (\<lambda>r st.
        \<lparr>cfb_type = (if b_type (bodyObj st r) = Body_STATIC then ''static'' else ''dynamic''),
         cfb_position = b_p (bodyObj st r), cfb_angle = b_a (bodyObj st r),
         cfb_shapes = map (\<lambda>_. circle_cfg) (b_shapeArr (bodyObj st r))\<rparr>),
     Joint_new = (\<lambda>_ _ _ _ _. rope0),
     Joint_serialize = (\<lambda>r st. joint_cfg ''DistanceJoint''
        (b_id (bodyObj st (j_body1 (jointObj st r))))
        (b_id (bodyObj st (j_body2 (jointObj st r)))))\<rparr>"

definition empty10 :: world where
  "empty10 = Space objects 0 0 0 10"

definition roped :: world where
  "roped = Space_addJoint 0 (Space_addBody ext0 1 (Space_addBody ext0 0 empty10))"

definition scene_unknown_joint :: Config where
  "scene_unknown_joint = \<lparr>cfg_bodies = [body_cfg], cfg_joints = [joint_cfg ''SpringJoint'' 0 0]\<rparr>"

definition scene_missing_body :: Config where
  "scene_missing_body = \<lparr>cfg_bodies = [body_cfg], cfg_joints = [joint_cfg ''DistanceJoint'' 0 5]\<rparr>"

definition scene_unknown_shape :: Config where
  "scene_unknown_shape =
     \<lparr>cfg_bodies = [body_cfg\<lparr>cfb_shapes := [circle_cfg\<lparr>cfs_type := ''ShapeBlob''\<rparr>]\<rparr>],
      cfg_joints = []\<rparr>"

definition scene_unknown_later_shape :: Config where
  "scene_unknown_later_shape =
     \<lparr>cfg_bodies = [body_cfg\<lparr>cfb_shapes := []\<rparr>,
                     body_cfg\<lparr>cfb_shapes := [circle_cfg\<lparr>cfs_type := ''ShapeBlob''\<rparr>]\<rparr>],
      cfg_joints = []\<rparr>"


text \<open>
  Two states with the same table of bodies, the same \<open>stepCount\<close> of the Space and the same
  \<open>stepCount\<close> of every body; and the assumption on the missing \<open>ContactSolver.update\<close> that
  it leaves the \<open>stepCount\<close> of the bodies alone.
\<close>

definition same_marks :: "world \<Rightarrow> world \<Rightarrow> bool" where
  "same_marks w w' \<longleftrightarrow>
     bodyHash w' = bodyHash w \<and> stepCount w' = stepCount w
     \<and> (\<forall>r. b_stepCount (bodyObj w' r) = b_stepCount (bodyObj w r))"

definition keeps_stepCount :: "ext \<Rightarrow> bool" where
  "keeps_stepCount x \<longleftrightarrow>
     (\<forall>c ca st r. b_stepCount (bodyObj (ContactSolver_update x c ca st) r)
                   = b_stepCount (bodyObj st r))"


section \<open>Properties of the number model and of the store\<close>

lemma let_weak_cong: "a = b \<Longrightarrow> (let x = a in t x) = (let x = b in t x)"
  by simp

lemmas vec2_defs = vec2_new_def vec2_zero_def vec2_add_def vec2_sub_def vec2_scale_def
  vec2_dot_def vec2_cross_def vec2_rotate_def vec2_length_def vec2_mad_def vec2_lengthsq_def

lemma jsnum_less_asym: "(a::jsnum) < b \<Longrightarrow> \<not> b < a"
  by (cases a; cases b) auto

lemma jsnum_le_not_less: "(a::jsnum) \<le> b \<Longrightarrow> \<not> b < a"
  by (cases a; cases b) auto

lemma Math_min_zero_not_pos: "\<not> Num 0 < Math_min a (Num 0)"
  by (cases a) auto

lemma bodyObj_upd_body [simp]:
  "bodyObj (upd_body r g s) = (bodyObj s)(r := g (bodyObj s r))"
  by (simp add: upd_body_def)

lemma jointObj_upd_body [simp]: "jointObj (upd_body r g s) = jointObj s"
  by (simp add: upd_body_def)

lemma bodyObj_upd_joint [simp]: "bodyObj (upd_joint r g s) = bodyObj s"
  by (simp add: upd_joint_def)

lemma jointObj_upd_joint [simp]:
  "jointObj (upd_joint r g s) = (jointObj s)(r := g (jointObj s r))"
  by (simp add: upd_joint_def)


section \<open>The rope joint: velocity solve\<close>

lemma jointObj_applyImpulse [simp]:
  "jointObj (RopeJoint_applyImpulse this l s) = jointObj s"
  by (simp add: RopeJoint_applyImpulse_def Let_def)

lemma applyImpulse_body1:
  assumes "j_body1 (jointObj s this) = r1" "j_body2 (jointObj s this) = r2" "r1 \<noteq> r2"
  shows "bodyObj (RopeJoint_applyImpulse this l s) r1 =
     (bodyObj s r1)
       \<lparr>b_v := vec2_mad (b_v (bodyObj s r1)) (vec2_scale (j_u (jointObj s this)) l)
                (- b_m_inv (bodyObj s r1)),
        b_w := b_w (bodyObj s r1) - j_s1 (jointObj s this) * l * b_i_inv (bodyObj s r1)\<rparr>"
  using assms by (simp add: RopeJoint_applyImpulse_def Let_def)

lemma applyImpulse_body2:
  assumes "j_body1 (jointObj s this) = r1" "j_body2 (jointObj s this) = r2" "r1 \<noteq> r2"
  shows "bodyObj (RopeJoint_applyImpulse this l s) r2 =
     (bodyObj s r2)
       \<lparr>b_v := vec2_mad (b_v (bodyObj s r2)) (vec2_scale (j_u (jointObj s this)) l)
                (b_m_inv (bodyObj s r2)),
        b_w := b_w (bodyObj s r2) + j_s2 (jointObj s this) * l * b_i_inv (bodyObj s r2)\<rparr>"
  using assms by (simp add: RopeJoint_applyImpulse_def Let_def)

text \<open>
  C2. A call to \<open>RopeJoint.solveVelocityConstraints\<close> on a rope between two distinct
  bodies computes \<open>Cdot = u\<cdot>(v2 - v1) + s2\<cdot>w2 - s1\<cdot>w1\<close> and the unclamped impulse
  \<open>-em\<cdot>(Cdot + cdt)\<close>, stores \<open>min(lambda_acc + impulse, 0)\<close> as the new accumulated
  impulse, and applies the difference of the new and the old accumulator to the linear and
  angular velocities of the two bodies along \<open>u\<close>. The accumulated impulse is never
  positive afterwards, whatever the numbers were (\<open>NaN\<close> is not greater than zero).
\<close>

theorem RopeJoint_solveVelocityConstraints_clamped:
  fixes s :: "'a store_scheme"
  assumes "j_body1 (jointObj s this) \<noteq> j_body2 (jointObj s this)"
  shows
  "(let jt = jointObj s this;
        body1 = bodyObj s (j_body1 jt);
        body2 = bodyObj s (j_body2 jt);
        Cdot = vec2_dot (j_u jt) (vec2_sub (b_v body2) (b_v body1))
               + j_s2 jt * b_w body2 - j_s1 jt * b_w body1;
        dlambda = (- j_em jt) * (Cdot + j_cdt jt);
        acc' = Math_min (j_lambda_acc jt + dlambda) (Num 0);
        delta = acc' - j_lambda_acc jt;
        s' = RopeJoint_solveVelocityConstraints this s
    in j_lambda_acc (jointObj s' this) = acc'
       \<and> \<not> Num 0 < j_lambda_acc (jointObj s' this)
       \<and> b_v (bodyObj s' (j_body1 jt))
           = vec2_mad (b_v body1) (vec2_scale (j_u jt) delta) (- b_m_inv body1)
       \<and> b_w (bodyObj s' (j_body1 jt)) = b_w body1 - j_s1 jt * delta * b_i_inv body1
       \<and> b_v (bodyObj s' (j_body2 jt))
           = vec2_mad (b_v body2) (vec2_scale (j_u jt) delta) (b_m_inv body2)
       \<and> b_w (bodyObj s' (j_body2 jt)) = b_w body2 + j_s2 jt * delta * b_i_inv body2)"
proof -
  define jt where "jt = jointObj s this"
  define acc where "acc = Math_min (j_lambda_acc jt + (- j_em jt) *
     (vec2_dot (j_u jt)
         (vec2_sub (b_v (bodyObj s (j_body2 jt))) (b_v (bodyObj s (j_body1 jt))))
       + j_s2 jt * b_w (bodyObj s (j_body2 jt)) - j_s1 jt * b_w (bodyObj s (j_body1 jt))
       + j_cdt jt)) (Num 0)"
  define s1 where "s1 = upd_joint this (\<lambda>j. j\<lparr>j_lambda_acc := acc\<rparr>) s"
  have run: "RopeJoint_solveVelocityConstraints this s
             = RopeJoint_applyImpulse this (acc - j_lambda_acc jt) s1"
    by (simp add: RopeJoint_solveVelocityConstraints_def Let_def s1_def acc_def jt_def)
  have j1: "j_body1 (jointObj s1 this) = j_body1 jt"
    and j2: "j_body2 (jointObj s1 this) = j_body2 jt"
    and ju: "j_u (jointObj s1 this) = j_u jt"
    and js1: "j_s1 (jointObj s1 this) = j_s1 jt"
    and js2: "j_s2 (jointObj s1 this) = j_s2 jt"
    and b: "bodyObj s1 = bodyObj s"
    and la: "j_lambda_acc (jointObj s1 this) = acc"
    by (simp_all add: s1_def jt_def)
  have ne: "j_body1 jt \<noteq> j_body2 jt"
    using assms by (simp add: jt_def)
  note B1 = applyImpulse_body1 [OF j1 j2 ne, of "acc - j_lambda_acc jt"]
  note B2 = applyImpulse_body2 [OF j1 j2 ne, of "acc - j_lambda_acc jt"]
  have np: "\<not> Num 0 < acc"
    by (simp add: acc_def Math_min_zero_not_pos)
  show ?thesis
    unfolding Let_def jt_def [symmetric] acc_def [symmetric] run
    by (simp add: B1 B2 la np ju js1 js2 b)
qed

text \<open>
  On the taut rope the second body recedes at unit speed: the impulse is \<open>-1\<close>, it is kept
  by the clamp, and it stops the second body; the first, immovable, keeps its velocity.
\<close>

theorem RopeJoint_solveVelocityConstraints_clamped_witness:
  "j_body1 (jointObj taut 0) \<noteq> j_body2 (jointObj taut 0)
   \<and> j_lambda_acc (jointObj (RopeJoint_solveVelocityConstraints 0 taut) 0) = Num (- 1)
   \<and> b_v (bodyObj (RopeJoint_solveVelocityConstraints 0 taut) 1) = vec2_new (Num 0) (Num 0)
   \<and> b_v (bodyObj (RopeJoint_solveVelocityConstraints 0 taut) 0) = vec2_new (Num 0) (Num 0)"
proof -
  have h: "j_body1 (jointObj taut 0) \<noteq> j_body2 (jointObj taut 0)"
    by (simp add: taut_def rope0_def)
  show ?thesis
    using h RopeJoint_solveVelocityConstraints_clamped [OF h]
    by (simp add: taut_def rope0_def body0_def Let_def vec2_defs minus_jsnum_def
        cong: let_weak_cong)
qed


section \<open>The rope joint: solver initialisation\<close>

lemma initSolver_joint:
  fixes s :: "'a store_scheme"
  shows "j_cdt (jointObj (RopeJoint_initSolver this dt ws s) this)
           = j_cdt (jointObj (RopeJoint_initSolver this dt False s) this)
       \<and> j_limitState (jointObj (RopeJoint_initSolver this dt ws s) this)
           = j_limitState (jointObj (RopeJoint_initSolver this dt False s) this)
       \<and> j_u (jointObj (RopeJoint_initSolver this dt ws s) this)
           = j_u (jointObj (RopeJoint_initSolver this dt False s) this)"
  by (cases ws) (simp_all add: RopeJoint_initSolver_def Let_def cong: let_weak_cong)

text \<open>
  C3. After \<open>RopeJoint.initSolver\<close> with time step \<open>dt\<close>, where \<open>distance\<close> is the length
  of \<open>(p2 + r2) - (p1 + r1)\<close> and \<open>C = distance - maxDistance\<close>: if \<open>C > 0\<close> the limit state
  is at-upper and the bias \<open>cdt\<close> is zero; if \<open>C \<le> 0\<close> the limit state is inactive and
  \<open>cdt = C / dt\<close>; and if the distance is below \<open>LINEAR_SLOP\<close> the direction \<open>u\<close> is the zero
  vector. This holds with and without warm starting.
\<close>

theorem RopeJoint_initSolver_limit:
  fixes s :: "'a store_scheme"
  shows
  "(let jt = jointObj s this;
        body1 = bodyObj s (j_body1 jt);
        body2 = bodyObj s (j_body2 jt);
        r1 = vec2_rotate (vec2_sub (j_anchor1 jt) (b_centroid body1)) (b_a body1);
        r2 = vec2_rotate (vec2_sub (j_anchor2 jt) (b_centroid body2)) (b_a body2);
        distance = vec2_length (vec2_sub (vec2_add (b_p body2) r2) (vec2_add (b_p body1) r1));
        C = distance - j_maxDistance jt;
        jt' = jointObj (RopeJoint_initSolver this dt warmStarting s) this
    in (Num 0 < C \<longrightarrow> j_limitState jt' = LIMIT_STATE_AT_UPPER \<and> j_cdt jt' = Num 0)
     \<and> (C \<le> Num 0 \<longrightarrow> j_limitState jt' = LIMIT_STATE_INACTIVE \<and> j_cdt jt' = C / dt)
     \<and> (distance < Joint_LINEAR_SLOP \<longrightarrow> j_u jt' = vec2_zero))"
proof -
  define jt where "jt = jointObj s this"
  define distance where "distance = vec2_length (vec2_sub
     (vec2_add (b_p (bodyObj s (j_body2 jt)))
        (vec2_rotate (vec2_sub (j_anchor2 jt) (b_centroid (bodyObj s (j_body2 jt))))
           (b_a (bodyObj s (j_body2 jt)))))
     (vec2_add (b_p (bodyObj s (j_body1 jt)))
        (vec2_rotate (vec2_sub (j_anchor1 jt) (b_centroid (bodyObj s (j_body1 jt))))
           (b_a (bodyObj s (j_body1 jt))))))"
  define C where "C = distance - j_maxDistance jt"
  define jt' where "jt' = jointObj (RopeJoint_initSolver this dt False s) this"
  have cdt: "j_cdt jt' = (if Num 0 < C then Num 0 else C / dt)"
    and ls: "j_limitState jt'
             = (if Num 0 < C then LIMIT_STATE_AT_UPPER else LIMIT_STATE_INACTIVE)"
    and u: "\<not> Joint_LINEAR_SLOP < distance \<Longrightarrow> j_u jt' = vec2_zero"
    by (simp_all add: jt'_def RopeJoint_initSolver_def Let_def C_def distance_def jt_def
        cong: let_weak_cong)
  have a: "Num 0 < C \<longrightarrow> j_limitState jt' = LIMIT_STATE_AT_UPPER \<and> j_cdt jt' = Num 0"
    by (simp add: cdt ls)
  have b: "C \<le> Num 0 \<longrightarrow> j_limitState jt' = LIMIT_STATE_INACTIVE \<and> j_cdt jt' = C / dt"
    using jsnum_le_not_less [of C "Num 0"] by (simp add: cdt ls)
  have c: "distance < Joint_LINEAR_SLOP \<longrightarrow> j_u jt' = vec2_zero"
    using jsnum_less_asym [of distance Joint_LINEAR_SLOP] u by blast
  show ?thesis
    unfolding Let_def jt_def [symmetric] distance_def [symmetric] C_def [symmetric]
    using a b c initSolver_joint [of this dt warmStarting s]
    by (simp add: jt'_def)
qed

text \<open>
  The taut rope is one half over its length: at-upper, no bias. The rope with coincident
  anchors has \<open>C = 0\<close> and a distance below the slop: inactive, bias \<open>0 / dt\<close>, direction zero.
\<close>

theorem RopeJoint_initSolver_limit_witness:
  "Num 0 < j_distance (jointObj (RopeJoint_initSolver 0 (Num (1 / 60)) True taut) 0)
           - j_maxDistance (jointObj taut 0)
   \<and> j_limitState (jointObj (RopeJoint_initSolver 0 (Num (1 / 60)) True taut) 0)
       = LIMIT_STATE_AT_UPPER
   \<and> j_cdt (jointObj (RopeJoint_initSolver 0 (Num (1 / 60)) True taut) 0) = Num 0
   \<and> j_distance (jointObj (RopeJoint_initSolver 0 (Num (1 / 60)) True coincident) 0)
       - j_maxDistance (jointObj coincident 0) \<le> Num 0
   \<and> j_distance (jointObj (RopeJoint_initSolver 0 (Num (1 / 60)) True coincident) 0)
       < Joint_LINEAR_SLOP
   \<and> j_limitState (jointObj (RopeJoint_initSolver 0 (Num (1 / 60)) True coincident) 0)
       = LIMIT_STATE_INACTIVE
   \<and> j_cdt (jointObj (RopeJoint_initSolver 0 (Num (1 / 60)) True coincident) 0) = Num 0
   \<and> j_u (jointObj (RopeJoint_initSolver 0 (Num (1 / 60)) True coincident) 0) = vec2_zero"
  using RopeJoint_initSolver_limit [of taut 0 "Num (1 / 60)" True]
        RopeJoint_initSolver_limit [of coincident 0 "Num (1 / 60)" True]
  by (simp add: RopeJoint_initSolver_def taut_def coincident_def rope0_def body0_def Let_def
      vec2_defs minus_jsnum_def Joint_LINEAR_SLOP_def js_eq_def inf_signed_def
      RopeJoint_applyImpulse_def upd_body_def upd_joint_def cong: let_weak_cong)


section \<open>The rope joint: position solve with coincident anchors\<close>

text \<open>
  C6. The claim is that no solver operation produces a non-finite value when the anchors
  coincide, and that \<open>solvePositionConstraints\<close> then does not divide by zero.
  \<open>initSolver\<close> tests the distance against the slop before it divides, and takes the zero
  vector for \<open>u\<close> otherwise; \<open>solvePositionConstraints\<close> has no such test. For two bodies at
  the origin with the anchors at their centres, the distance it computes is zero and the
  factor \<open>1 / dist\<close> that it passes to \<open>vec2.scale\<close> is \<open>Infinity\<close>, while \<open>initSolver\<close> in the
  same state divides nothing and sets \<open>u\<close> to zero.
\<close>

theorem RopeJoint_solvePositionConstraints_coincident_division:
  "pl_d (RopeJoint_solvePositionConstraints_locals 0 coincident) = vec2_zero
   \<and> pl_dist (RopeJoint_solvePositionConstraints_locals 0 coincident) = Num 0
   \<and> pl_inv_dist (RopeJoint_solvePositionConstraints_locals 0 coincident) = PosInf
   \<and> \<not> isFinite (pl_inv_dist (RopeJoint_solvePositionConstraints_locals 0 coincident))
   \<and> j_distance (jointObj (RopeJoint_initSolver 0 (Num 1) False coincident) 0) = Num 0
   \<and> j_u (jointObj (RopeJoint_initSolver 0 (Num 1) False coincident) 0) = vec2_zero"
  by (simp add: RopeJoint_solvePositionConstraints_locals_def RopeJoint_initSolver_def
      coincident_def body0_def rope0_def Let_def vec2_defs minus_jsnum_def inf_signed_def
      js_eq_def Math_clamp_def Joint_MAX_LINEAR_CORRECTION_def Joint_LINEAR_SLOP_def
      upd_joint_def cong: let_weak_cong)


section \<open>The Space: registry of bodies and joints\<close>


lemma hash_set_keys: "set (map fst (hash_set k v xs)) = insert k (set (map fst xs))"
  by (induction xs) force+

lemma hash_set_sorted:
  "sorted_wrt (<) (map fst xs) \<Longrightarrow> sorted_wrt (<) (map fst (hash_set k v xs))"
proof (induction xs)
  case Nil
  then show ?case by simp
next
  case (Cons e xs)
  obtain k' v' where e: "e = (k', v')" by (cases e)
  have "\<forall>y \<in> set (map fst (hash_set k v xs)). k' < y" if "k' < k"
    using Cons.prems that unfolding hash_set_keys e by auto
  then show ?case
    using Cons by (auto simp: e)
qed

lemma hash_set_length:
  "hash_get xs k = None \<Longrightarrow> length (hash_set k v xs) = Suc (length xs)"
  by (induction xs) (auto simp: hash_get_def split: if_splits)

lemma hash_delete_sorted:
  "sorted_wrt (<) (map fst xs) \<Longrightarrow> sorted_wrt (<) (map fst (hash_delete k xs))"
  by (induction xs) (auto simp: hash_delete_def)

lemma hash_delete_absent: "k \<notin> fst ` set xs \<Longrightarrow> hash_delete k xs = xs"
  by (induction xs) (auto simp: hash_delete_def)

lemma hash_delete_length:
  "distinct (map fst xs) \<Longrightarrow> hash_get xs k \<noteq> None \<Longrightarrow>
   Suc (length (hash_delete k xs)) = length xs"
proof (induction xs)
  case Nil
  then show ?case by (simp add: hash_get_def)
next
  case (Cons e xs)
  show ?case
  proof (cases "fst e = k")
    case True
    then have "k \<notin> fst ` set xs" using Cons.prems(1) by auto
    then have "hash_delete k xs = xs" by (rule hash_delete_absent)
    then show ?thesis using True by (simp add: hash_delete_def)
  next
    case False
    then have "hash_get xs k \<noteq> None"
      using Cons.prems(2) by (cases e) (auto simp: hash_get_def)
    then have "Suc (length (hash_delete k xs)) = length xs"
      using Cons by simp
    then show ?thesis using False by (simp add: hash_delete_def)
  qed
qed

lemma sorted_keys_distinct: "sorted_wrt (<) (ks :: nat list) \<Longrightarrow> distinct ks"
  by (simp add: strict_sorted_iff)

lemma upd_body_fields [simp]:
  fixes w :: world
  shows "bodyHash (upd_body r g w) = bodyHash w" "numBodies (upd_body r g w) = numBodies w"
    "jointHash (upd_body r g w) = jointHash w" "numJoints (upd_body r g w) = numJoints w"
  by (simp_all add: upd_body_def)

lemma on_store_fields [simp]:
  fixes w :: world
  shows "bodyHash (on_store g w) = bodyHash w" "numBodies (on_store g w) = numBodies w"
    "jointHash (on_store g w) = jointHash w" "numJoints (on_store g w) = numJoints w"
  by (simp_all add: on_store_def put_store_def)

lemma Space_inv_upd_body [simp]: "Space_inv (upd_body r g w) = Space_inv w"
  by (simp add: Space_inv_def)

lemma Space_inv_on_store [simp]: "Space_inv (on_store g w) = Space_inv w"
  by (simp add: Space_inv_def)

lemma Space_inv_constructed: "Space_inv (Space st a b c r)"
  by (simp add: Space_inv_def Space_def store.extend_def hash_keys_def)

lemma Space_inv_addBody: "Space_inv w \<Longrightarrow> Space_inv (Space_addBody x body w)"
  by (auto simp: Space_addBody_def Let_def Space_inv_def hash_keys_def hash_set_length
      hash_set_sorted)

lemma Space_inv_addJoint: "Space_inv w \<Longrightarrow> Space_inv (Space_addJoint joint w)"
  by (auto simp: Space_addJoint_def Let_def Space_inv_def hash_keys_def hash_set_length
      hash_set_sorted)

lemma Space_inv_removeJoint: "Space_inv w \<Longrightarrow> Space_inv (Space_removeJoint joint w)"
proof (cases "hash_get (jointHash w) (j_id (jointObj w joint)) = None")
  case True
  assume "Space_inv w"
  with True show ?thesis by (simp add: Space_removeJoint_def)
next
  case False
  assume inv: "Space_inv w"
  then have "distinct (map fst (jointHash w))"
    by (simp add: Space_inv_def hash_keys_def sorted_keys_distinct)
  from hash_delete_length [OF this False]
  have "int (length (hash_delete (j_id (jointObj w joint)) (jointHash w)))
        = int (length (jointHash w)) - 1"
    by linarith
  with inv False show ?thesis
    by (simp add: Space_removeJoint_def Let_def Space_inv_def hash_keys_def hash_delete_sorted)
qed

lemma Space_inv_removeBody_joints:
  "Space_inv w \<Longrightarrow> Space_inv (removeBody_joints body ks w)"
  by (induction ks arbitrary: w) (auto simp: Space_inv_removeJoint split: option.splits)

lemma removeJoint_keeps_bodies:
  "bodyHash (Space_removeJoint joint w) = bodyHash w"
  "numBodies (Space_removeJoint joint w) = numBodies w"
  "b_id (bodyObj (Space_removeJoint joint w) r) = b_id (bodyObj w r)"
  by (simp_all add: Space_removeJoint_def Let_def Body_awake_def)

lemma removeBody_joints_keeps_bodies:
  "bodyHash (removeBody_joints body ks w) = bodyHash w
   \<and> numBodies (removeBody_joints body ks w) = numBodies w
   \<and> b_id (bodyObj (removeBody_joints body ks w) r) = b_id (bodyObj w r)"
  by (induction ks arbitrary: w) (simp_all add: removeJoint_keeps_bodies split: option.splits)

lemma Space_inv_removeBody: "Space_inv w \<Longrightarrow> Space_inv (Space_removeBody body w)"
proof (cases "hash_get (bodyHash w) (b_id (bodyObj w body)) = None")
  case True
  assume "Space_inv w"
  with True show ?thesis by (simp add: Space_removeBody_def)
next
  case False
  assume inv: "Space_inv w"
  define w1 where "w1 = upd_body body (\<lambda>b. b\<lparr>b_space := False\<rparr>)
     (removeBody_joints body (hash_keys (b_jointHash (bodyObj w body))) w)"
  have inv1: "Space_inv w1"
    by (simp add: w1_def Space_inv_removeBody_joints inv)
  have run: "Space_removeBody body w =
     w1\<lparr>bodyHash := hash_delete (b_id (bodyObj w1 body)) (bodyHash w1),
        numBodies := numBodies w1 - 1\<rparr>"
    using False by (simp add: Space_removeBody_def Let_def w1_def del: not_None_eq)
  have same: "bodyHash w1 = bodyHash w" "b_id (bodyObj w1 body) = b_id (bodyObj w body)"
    by (simp_all add: w1_def removeBody_joints_keeps_bodies)
  have present: "hash_get (bodyHash w1) (b_id (bodyObj w1 body)) \<noteq> None"
    using False by (simp add: same del: not_None_eq)
  from inv1 have "distinct (map fst (bodyHash w1))"
    by (simp add: Space_inv_def hash_keys_def sorted_keys_distinct)
  from hash_delete_length [OF this present]
  have "int (length (hash_delete (b_id (bodyObj w1 body)) (bodyHash w1)))
        = int (length (bodyHash w1)) - 1"
    by linarith
  with inv1 show ?thesis
    unfolding run by (simp add: Space_inv_def hash_keys_def hash_delete_sorted)
qed

lemma Space_inv_clear_bodies: "Space_inv w \<Longrightarrow> Space_inv (clear_bodies ks w)"
  by (induction ks arbitrary: w) (auto simp: Space_inv_removeBody split: option.splits)

lemma Space_inv_clear: "Space_inv w \<Longrightarrow> Space_inv (Space_clear w)"
proof -
  assume inv: "Space_inv w"
  have a: "Space_inv (w\<lparr>Shape_id_counter := 0, Body_id_counter := 0, Joint_id_counter := 0\<rparr>)"
    using inv by (simp add: Space_inv_def)
  have b: "\<And>w' cs sc. Space_inv w' \<Longrightarrow> Space_inv (w'\<lparr>contactSolverArr := cs, stepCount := sc\<rparr>)"
    by (simp add: Space_inv_def)
  show ?thesis
    unfolding Space_clear_def Let_def
    using b [OF Space_inv_clear_bodies [OF a]] by simp
qed

lemma reachable_inv: "reachable x w \<Longrightarrow> Space_inv w"
  by (induction rule: reachable.induct)
     (simp_all add: Space_inv_constructed Space_inv_addBody Space_inv_removeBody
        Space_inv_addJoint Space_inv_removeJoint Space_inv_clear)

text \<open>
  C10. The four registry methods are guarded: \<open>addBody\<close> with a body whose id is registered
  and \<open>addJoint\<close> with a joint whose id is registered return the state as it was, and so do
  \<open>removeBody\<close> and \<open>removeJoint\<close> with an id that is not registered. In every state that a
  Space reaches from its construction by these four methods and \<open>clear\<close>, whatever happens
  to the objects in between, \<open>numBodies\<close> and \<open>numJoints\<close> are the numbers of entries of the
  two tables, whose keys are distinct.
\<close>

theorem Space_registry_guarded:
  "(hash_get (bodyHash w) (b_id (bodyObj w body)) \<noteq> None \<longrightarrow> Space_addBody x body w = w)
   \<and> (hash_get (jointHash w) (j_id (jointObj w joint)) \<noteq> None \<longrightarrow> Space_addJoint joint w = w)
   \<and> (hash_get (bodyHash w) (b_id (bodyObj w body)) = None \<longrightarrow> Space_removeBody body w = w)
   \<and> (hash_get (jointHash w) (j_id (jointObj w joint)) = None
        \<longrightarrow> Space_removeJoint joint w = w)
   \<and> (reachable x w \<longrightarrow>
        numBodies w = int (length (bodyHash w)) \<and> distinct (hash_keys (bodyHash w))
        \<and> numJoints w = int (length (jointHash w)) \<and> distinct (hash_keys (jointHash w)))"
proof -
  have "Space_inv w" if "reachable x w"
    using that by (rule reachable_inv)
  then show ?thesis
    by (auto simp: Space_addBody_def Space_addJoint_def Space_removeBody_def
        Space_removeJoint_def Space_inv_def sorted_keys_distinct)
qed

lemma registered_tables:
  "bodyHash registered = [(0, 0), (1, 1)]" "jointHash registered = [(0, 0)]"
  "numBodies registered = 2" "numJoints registered = 1"
  "b_id (bodyObj registered 0) = 0" "j_id (jointObj registered 0) = 0"
  by (simp_all add: registered_def fresh_def Space_def objects_def store.extend_def
      Space_addBody_def Space_addJoint_def Let_def hash_get_def upd_body_def on_store_def
      put_store_def ext0_def store.truncate_def Body_awake_def rope0_def body0_def
      cong: let_weak_cong)

text \<open>
  Both bodies and the rope are registered in \<open>registered\<close>, nothing is in \<open>fresh\<close>.
\<close>

theorem Space_registry_guarded_witness:
  "hash_get (bodyHash registered) (b_id (bodyObj registered 0)) \<noteq> None
   \<and> Space_addBody ext0 0 registered = registered
   \<and> hash_get (jointHash registered) (j_id (jointObj registered 0)) \<noteq> None
   \<and> Space_addJoint 0 registered = registered
   \<and> hash_get (bodyHash fresh) (b_id (bodyObj fresh 0)) = None
   \<and> Space_removeBody 0 fresh = fresh
   \<and> hash_get (jointHash fresh) (j_id (jointObj fresh 0)) = None
   \<and> Space_removeJoint 0 fresh = fresh
   \<and> reachable ext0 registered
   \<and> numBodies registered = 2 \<and> length (bodyHash registered) = 2
   \<and> numJoints registered = 1 \<and> length (jointHash registered) = 1"
proof -
  have r: "reachable ext0 registered"
    unfolding registered_def fresh_def
    by (intro reachable.addJoint reachable.addBody reachable.constructed)
  have f: "hash_get (bodyHash fresh) (b_id (bodyObj fresh 0)) = None"
    "hash_get (jointHash fresh) (j_id (jointObj fresh 0)) = None"
    by (simp_all add: fresh_def Space_def store.extend_def hash_get_def)
  have g: "hash_get (bodyHash registered) (b_id (bodyObj registered 0)) \<noteq> None"
    "hash_get (jointHash registered) (j_id (jointObj registered 0)) \<noteq> None"
    by (simp_all add: registered_tables hash_get_def)
  show ?thesis
    using Space_registry_guarded [of registered 0 ext0 0]
          Space_registry_guarded [of fresh 0 ext0 0] r f g
    by (simp add: registered_tables)
qed


section \<open>The position solver: rounds and early exit\<close>

lemma solve_contacts_reports:
  "solve_contacts x cs ok w =
     (ok \<and> list_all id (fst (spec_reports (ContactSolver_solvePos x) cs w)),
      snd (spec_reports (ContactSolver_solvePos x) cs w))"
  by (induction cs arbitrary: ok w) (auto simp: Let_def split: prod.splits)

lemma solve_joints_reports:
  "solve_joints x js ok w =
     (ok \<and> list_all id (fst (spec_reports (Joint_solvePos x) js w)),
      snd (spec_reports (Joint_solvePos x) js w))"
  by (induction js arbitrary: ok w) (auto simp: Let_def split: prod.splits)

lemma loop_Suc:
  "positionSolver_loop x (Suc n) (stats, w) =
     (if fst (spec_position_round x w) then (True, stats, snd (spec_position_round x w))
      else positionSolver_loop x n
             (stats\<lparr>positionIterations := positionIterations stats + 1\<rparr>,
              snd (spec_position_round x w)))"
  by (auto simp: spec_position_round_def solve_contacts_reports solve_joints_reports Let_def
      split: prod.splits)

lemma spec_after_rounds_Suc: "spec_after_rounds x (Suc k) w = spec_after_rounds x k (snd (spec_position_round x w))"
  by (simp add: spec_after_rounds_def funpow_Suc_right del: funpow.simps)

lemma spec_after_rounds_Suc': "spec_after_rounds x (Suc k) w = snd (spec_position_round x (spec_after_rounds x k w))"
  by (simp add: spec_after_rounds_def)

lemma spec_round_ok_Suc: "spec_round_ok x (Suc k) w = spec_round_ok x k (snd (spec_position_round x w))"
  by (simp add: spec_round_ok_def spec_after_rounds_Suc)

lemma loop_solved:
  "k < n \<Longrightarrow> spec_round_ok x k w \<Longrightarrow> \<forall>i<k. \<not> spec_round_ok x i w \<Longrightarrow>
   positionSolver_loop x n (stats, w) =
     (True, stats\<lparr>positionIterations := positionIterations stats + k\<rparr>, spec_after_rounds x (Suc k) w)"
proof (induction n arbitrary: k stats w)
  case 0
  then show ?case by simp
next
  case (Suc n)
  show ?case
  proof (cases k)
    case 0
    with Suc.prems show ?thesis
      by (simp add: loop_Suc spec_round_ok_def spec_after_rounds_def del: positionSolver_loop.simps)
  next
    case (Suc k')
    have first: "\<not> fst (spec_position_round x w)"
      using Suc.prems(3) Suc by (auto simp: spec_round_ok_def spec_after_rounds_def)
    have "k' < n" using Suc.prems(1) Suc by simp
    moreover have "spec_round_ok x k' (snd (spec_position_round x w))"
      using Suc.prems(2) Suc by (simp add: spec_round_ok_Suc)
    moreover have "\<forall>i<k'. \<not> spec_round_ok x i (snd (spec_position_round x w))"
      using Suc.prems(3) Suc by (auto simp: spec_round_ok_Suc [symmetric])
    ultimately have "positionSolver_loop x n
        (stats\<lparr>positionIterations := positionIterations stats + 1\<rparr>, snd (spec_position_round x w)) =
        (True, stats\<lparr>positionIterations := positionIterations stats + 1 + k'\<rparr>,
         spec_after_rounds x (Suc k') (snd (spec_position_round x w)))"
      using Suc.IH [of k' "snd (spec_position_round x w)"
          "stats\<lparr>positionIterations := positionIterations stats + 1\<rparr>"]
      by simp
    then show ?thesis
      using first Suc by (simp add: loop_Suc spec_after_rounds_Suc del: positionSolver_loop.simps)
  qed
qed

lemma loop_unsolved:
  "\<forall>i<n. \<not> spec_round_ok x i w \<Longrightarrow>
   positionSolver_loop x n (stats, w) =
     (False, stats\<lparr>positionIterations := positionIterations stats + n\<rparr>, spec_after_rounds x n w)"
proof (induction n arbitrary: stats w)
  case 0
  then show ?case by (simp add: spec_after_rounds_def)
next
  case (Suc n)
  have first: "\<not> fst (spec_position_round x w)"
    using Suc.prems by (auto simp: spec_round_ok_def spec_after_rounds_def)
  have "\<forall>i<n. \<not> spec_round_ok x i (snd (spec_position_round x w))"
    using Suc.prems by (auto simp: spec_round_ok_Suc [symmetric])
  from Suc.IH [OF this, of "stats\<lparr>positionIterations := positionIterations stats + 1\<rparr>"]
  show ?case
    using first by (simp add: loop_Suc spec_after_rounds_Suc del: positionSolver_loop.simps)
qed

text \<open>
  C4. \<open>Space.positionSolver(n)\<close> runs at most \<open>n\<close> rounds, each solving all contact solvers
  and then all joints. It returns true exactly when one of these rounds ends with every
  contact solver and every joint reporting OK; it then stops after the first such round,
  and \<open>stats.positionIterations\<close> is the number of rounds before it. Otherwise it returns
  false after \<open>n\<close> rounds with \<open>stats.positionIterations = n\<close>.
\<close>

theorem Space_positionSolver_rounds:
  "(fst (Space_positionSolver x n (stats, w)) \<longleftrightarrow> (\<exists>k<n. spec_round_ok x k w))
   \<and> (\<forall>k<n. spec_round_ok x k w \<and> (\<forall>i<k. \<not> spec_round_ok x i w) \<longrightarrow>
        Space_positionSolver x n (stats, w) =
          (True, stats\<lparr>positionIterations := k\<rparr>, spec_after_rounds x (Suc k) w))
   \<and> ((\<forall>k<n. \<not> spec_round_ok x k w) \<longrightarrow>
        Space_positionSolver x n (stats, w) =
          (False, stats\<lparr>positionIterations := n\<rparr>, spec_after_rounds x n w))"
proof -
  have solved: "Space_positionSolver x n (stats, w) =
          (True, stats\<lparr>positionIterations := k\<rparr>, spec_after_rounds x (Suc k) w)"
    if "k < n" "spec_round_ok x k w" "\<forall>i<k. \<not> spec_round_ok x i w" for k
    using loop_solved [OF that, of "stats\<lparr>positionIterations := 0\<rparr>"]
    by (simp add: Space_positionSolver_def)
  have unsolved: "Space_positionSolver x n (stats, w) =
          (False, stats\<lparr>positionIterations := n\<rparr>, spec_after_rounds x n w)"
    if "\<forall>k<n. \<not> spec_round_ok x k w"
    using loop_unsolved [OF that, of "stats\<lparr>positionIterations := 0\<rparr>"]
    by (simp add: Space_positionSolver_def)
  have iff: "fst (Space_positionSolver x n (stats, w)) \<longleftrightarrow> (\<exists>k<n. spec_round_ok x k w)"
  proof
    assume "fst (Space_positionSolver x n (stats, w))"
    then show "\<exists>k<n. spec_round_ok x k w"
      using unsolved by fastforce
  next
    assume "\<exists>k<n. spec_round_ok x k w"
    then obtain k where k: "k < n \<and> spec_round_ok x k w" by blast
    define m where "m = (LEAST k. k < n \<and> spec_round_ok x k w)"
    have m: "m < n \<and> spec_round_ok x m w"
      unfolding m_def using k by (rule LeastI)
    have "\<not> (i < n \<and> spec_round_ok x i w)" if "i < m" for i
      using that not_less_Least unfolding m_def by blast
    then have "\<forall>i<m. \<not> spec_round_ok x i w"
      using m by auto
    from solved [of m] m this show "fst (Space_positionSolver x n (stats, w))"
      by simp
  qed
  show ?thesis
    using iff solved unsolved by blast
qed

lemmas world_eval = fresh_def Space_def objects_def store.extend_def store.truncate_def
  on_store_def on_store_result_def put_store_def upd_body_def upd_joint_def

lemma spec_after_rounds_0: "spec_after_rounds x 0 w = w"
  by (simp add: spec_after_rounds_def)

lemma stacked_rounds:
  "\<not> spec_round_ok ext1 0 stacked" "\<not> spec_round_ok ext1 (Suc 0) stacked"
  "spec_round_ok ext1 (Suc (Suc 0)) stacked"
  by (simp_all add: spec_round_ok_def spec_after_rounds_0 spec_after_rounds_Suc
      spec_position_round_def
      stacked_def ext1_def ext0_def solver0_def ContactSolver_solvePos_def
      world_eval Let_def cong: let_weak_cong)


text \<open>
  With two contact points to resolve, the third round is the first that ends OK: three
  rounds allowed give true with two counted iterations, two rounds allowed give false.
\<close>

theorem Space_positionSolver_rounds_witness:
  "\<not> spec_round_ok ext1 0 stacked \<and> \<not> spec_round_ok ext1 1 stacked
   \<and> spec_round_ok ext1 2 stacked
   \<and> Space_positionSolver ext1 3 (stats0, stacked)
       = (True, stats0\<lparr>positionIterations := 2\<rparr>, spec_after_rounds ext1 3 stacked)
   \<and> Space_positionSolver ext1 2 (stats0, stacked)
       = (False, stats0\<lparr>positionIterations := 2\<rparr>, spec_after_rounds ext1 2 stacked)"
proof -
  have ok2: "spec_round_ok ext1 2 stacked"
    using stacked_rounds(3) by (simp add: numeral_2_eq_2)
  have none: "\<forall>i<2. \<not> spec_round_ok ext1 i stacked"
    using stacked_rounds(1,2) less_2_cases by fastforce
  have a: "Space_positionSolver ext1 3 (stats0, stacked)
       = (True, stats0\<lparr>positionIterations := 2\<rparr>, spec_after_rounds ext1 (Suc 2) stacked)"
    using Space_positionSolver_rounds [of ext1 3 stats0 stacked, THEN conjunct2, THEN conjunct1, rule_format, of 2]
      ok2 none by simp
  have b: "Space_positionSolver ext1 2 (stats0, stacked)
       = (False, stats0\<lparr>positionIterations := 2\<rparr>, spec_after_rounds ext1 2 stacked)"
    using Space_positionSolver_rounds [of ext1 2 stats0 stacked, THEN conjunct2, THEN conjunct2, rule_format]
      none by simp
  have "Suc 2 = 3" by simp
  with a b ok2 stacked_rounds(1,2) show ?thesis by simp
qed


section \<open>The step: damping of free bodies\<close>


lemma integrate_velocity_gravity [simp]:
  "gravity (integrate_velocity d dt bs w) = gravity w"
  by (induction bs arbitrary: w) (auto simp: upd_body_def)











section \<open>The step: when bodies fall asleep\<close>

lemma sleep_times_bodyHash [simp]: "bodyHash (snd (sleep_times dt bs m w)) = bodyHash w"
  by (induction bs arbitrary: m w) (auto simp: Let_def)

lemma sleep_times_other:
  "r \<notin> set bs \<Longrightarrow> bodyObj (snd (sleep_times dt bs m w)) r = bodyObj w r"
  by (induction bs arbitrary: m w) (auto simp: Let_def)

lemma sleep_times_type [simp]:
  "b_type (bodyObj (snd (sleep_times dt bs m w)) r) = b_type (bodyObj w r)"
  by (induction bs arbitrary: m w) (auto simp: Let_def)

lemma sleep_times_awaked [simp]:
  "b_awaked (bodyObj (snd (sleep_times dt bs m w)) r) = b_awaked (bodyObj w r)"
  by (induction bs arbitrary: m w) (auto simp: Let_def)

lemma sleep_all_sleepTime [simp]:
  "b_sleepTime (bodyObj (sleep_all bs w) r) = b_sleepTime (bodyObj w r)"
  by (induction bs arbitrary: w) (auto simp: Body_awake_def)

lemma sleep_all_type [simp]:
  "b_type (bodyObj (sleep_all bs w) r) = b_type (bodyObj w r)"
  by (induction bs arbitrary: w) (auto simp: Body_awake_def)

lemma sleep_all_awaked:
  "b_awaked (bodyObj (sleep_all bs w) r) = (b_awaked (bodyObj w r) \<and> r \<notin> set bs)"
  by (induction bs arbitrary: w) (auto simp: Body_awake_def)

lemma sleep_times_at:
  assumes "r \<in> set bs" "distinct bs" "Body_isDynamic (bodyObj w r)"
  shows "b_sleepTime (bodyObj (snd (sleep_times dt bs m w)) r) =
           (if moving (bodyObj w r) then Num 0 else b_sleepTime (bodyObj w r) + dt)"
  using assms
proof (induction bs arbitrary: m w)
  case Nil
  then show ?case by simp
next
  case (Cons b bs)
  show ?case
  proof (cases "b = r")
    case True
    then have "r \<notin> set bs" using Cons.prems(2) by simp
    then show ?thesis
      using True Cons.prems(3)
      by (auto simp: sleep_times_other Let_def moving_def)
  next
    case False
    then have r: "r \<in> set bs" "distinct bs" using Cons.prems by auto
    have keep: "bodyObj (upd_body b g w) r = bodyObj w r" for g
      using False by simp
    show ?thesis
      using Cons.IH [OF r] Cons.prems(3) keep
      by (auto simp: Let_def Body_isDynamic_def)
  qed
qed

lemma Math_min_not_pos: "\<not> Num 0 < m \<Longrightarrow> \<not> Num 0 < Math_min m a"
  by (cases m; cases a) auto

lemma Math_min_ge: "Num c \<le> m \<Longrightarrow> Num c \<le> a \<Longrightarrow> Num c \<le> Math_min m a"
  by (cases m; cases a) auto

lemma not_pos_below_TIME_TO_SLEEP: "\<not> Num 0 < m \<Longrightarrow> \<not> Space_TIME_TO_SLEEP \<le> m"
  by (cases m) (auto simp: Space_TIME_TO_SLEEP_def)

lemma sleep_times_min_not_pos:
  "\<not> Num 0 < m \<Longrightarrow> \<not> Num 0 < fst (sleep_times dt bs m w)"
proof (induction bs arbitrary: m w)
  case Nil
  then show ?case by simp
next
  case (Cons b bs)
  have z: "\<not> Num 0 < Num 0"
    by simp
  have mn: "\<not> Num 0 < Math_min m a" for a
    using Cons.prems by (rule Math_min_not_pos)
  show ?case
    using Cons.IH [OF Cons.prems] Cons.IH [OF z] Cons.IH [OF mn]
    by (auto simp: Let_def)
qed

lemma sleep_times_moving:
  assumes "r \<in> set bs" "Body_isDynamic (bodyObj w r)" "moving (bodyObj w r)" "distinct bs"
  shows "\<not> Num 0 < fst (sleep_times dt bs m w)"
  using assms
proof (induction bs arbitrary: m w)
  case Nil
  then show ?case by simp
next
  case (Cons b bs)
  have z: "\<not> Num 0 < Num 0"
    by simp
  show ?case
  proof (cases "b = r")
    case True
    then show ?thesis
      using Cons.prems(2,3) sleep_times_min_not_pos [OF z]
      by (simp add: moving_def)
  next
    case False
    then have r: "r \<in> set bs" "distinct bs" using Cons.prems by auto
    have keep: "bodyObj (upd_body b g w) r = bodyObj w r" for g
      using False by simp
    show ?thesis
      using Cons.IH [OF r(1) _ _ r(2)] Cons.prems(2,3) keep
      by (auto simp: Let_def Body_isDynamic_def moving_def)
  qed
qed

lemma sleep_times_all_rested:
  assumes "distinct bs" "Space_TIME_TO_SLEEP \<le> m"
    and "\<forall>r \<in> set bs. Body_isDynamic (bodyObj w r) \<longrightarrow>
           Space_TIME_TO_SLEEP \<le> b_sleepTime (bodyObj (snd (sleep_times dt bs m w)) r)"
  shows "Space_TIME_TO_SLEEP \<le> fst (sleep_times dt bs m w)"
  using assms
proof (induction bs arbitrary: m w)
  case Nil
  then show ?case by simp
next
  case (Cons b bs)
  have d: "distinct bs" "b \<notin> set bs" using Cons.prems(1) by auto
  show ?case
  proof (cases "Body_isDynamic (bodyObj w b)")
    case False
    have "\<forall>r \<in> set bs. Body_isDynamic (bodyObj w r) \<longrightarrow>
           Space_TIME_TO_SLEEP \<le> b_sleepTime (bodyObj (snd (sleep_times dt bs m w)) r)"
      using Cons.prems(3) False by simp
    from Cons.IH [OF d(1) Cons.prems(2) this] show ?thesis
      using False by simp
  next
    case True
    have at: "b_sleepTime (bodyObj (snd (sleep_times dt (b # bs) m w)) b) =
           (if moving (bodyObj w b) then Num 0 else b_sleepTime (bodyObj w b) + dt)"
      by (rule sleep_times_at [OF _ Cons.prems(1) True]) simp
    have rested: "Space_TIME_TO_SLEEP \<le> b_sleepTime (bodyObj (snd (sleep_times dt (b # bs) m w)) b)"
      using Cons.prems(3) True by simp
    have nm: "\<not> moving (bodyObj w b)"
    proof
      assume "moving (bodyObj w b)"
      with at rested have "Space_TIME_TO_SLEEP \<le> Num 0" by simp
      then show False by (simp add: Space_TIME_TO_SLEEP_def)
    qed
    define w1 where "w1 = upd_body b (\<lambda>b. b\<lparr>b_sleepTime := b_sleepTime b + dt\<rparr>) w"
    define m1 where "m1 = Math_min m (b_sleepTime (bodyObj w1 b))"
    have run: "sleep_times dt (b # bs) m w = sleep_times dt bs m1 w1"
      using True nm by (simp add: Let_def moving_def w1_def m1_def)
    have s1: "b_sleepTime (bodyObj w1 b) = b_sleepTime (bodyObj w b) + dt"
      by (simp add: w1_def)
    have "Space_TIME_TO_SLEEP \<le> b_sleepTime (bodyObj w b) + dt"
      using at rested nm by simp
    then have m1: "Space_TIME_TO_SLEEP \<le> m1"
      unfolding m1_def s1 Space_TIME_TO_SLEEP_def
      using Cons.prems(2) [unfolded Space_TIME_TO_SLEEP_def] by (intro Math_min_ge)
    have "\<forall>r \<in> set bs. Body_isDynamic (bodyObj w1 r) \<longrightarrow>
           Space_TIME_TO_SLEEP \<le> b_sleepTime (bodyObj (snd (sleep_times dt bs m1 w1)) r)"
    proof (intro ballI impI)
      fix r assume r: "r \<in> set bs" and "Body_isDynamic (bodyObj w1 r)"
      then have "Body_isDynamic (bodyObj w r)"
        by (auto simp: w1_def Body_isDynamic_def split: if_splits)
      with Cons.prems(3) r show
        "Space_TIME_TO_SLEEP \<le> b_sleepTime (bodyObj (snd (sleep_times dt bs m1 w1)) r)"
        unfolding run by simp
    qed
    from Cons.IH [OF d(1) m1 this] show ?thesis
      unfolding run .
  qed
qed

text \<open>
  C5, as amended. In a step with \<open>allowSleep\<close>, for every dynamic body that is in the table
  once: if \<open>w\<^sup>2 > SLEEP_ANGULAR_TOLERANCE\<^sup>2\<close> or \<open>v\<cdot>v > SLEEP_LINEAR_TOLERANCE\<^sup>2\<close>, its
  \<open>sleepTime\<close> is reset to zero and the minimum is forced to zero: at the end of the loop
  \<open>minSleepTime\<close> is not above zero, and the step puts no body to sleep. In every other
  case, so also when a velocity is \<open>NaN\<close> and neither comparison holds, its \<open>sleepTime\<close> grows
  by \<open>dt\<close>. And if the position solver reported solved and the \<open>sleepTime\<close> of every dynamic
  body is at least \<open>TIME_TO_SLEEP\<close> after the update, every body of the table is put to
  sleep.
\<close>

theorem Space_step_sleep_accounting:
  assumes "(k, r) \<in> set (bodyHash w)" "distinct (map snd (bodyHash w))"
    and "Body_isDynamic (bodyObj w r)"
  shows
  "(let w' = Space_step_sleep dt positionSolved True w;
        minSleepTime = fst (sleep_times dt (map snd (bodyHash w)) (Num 999999) w);
        body = bodyObj w r
    in (angTolSqr < b_w body * b_w body \<or> linTolSqr < vec2_dot (b_v body) (b_v body)
          \<longrightarrow> b_sleepTime (bodyObj w' r) = Num 0 \<and> \<not> Num 0 < minSleepTime
              \<and> (\<forall>r'. Body_isAwake (bodyObj w' r') = Body_isAwake (bodyObj w r')))
     \<and> (\<not> (angTolSqr < b_w body * b_w body \<or> linTolSqr < vec2_dot (b_v body) (b_v body))
          \<longrightarrow> b_sleepTime (bodyObj w' r) = b_sleepTime body + dt)
     \<and> (positionSolved
          \<and> (\<forall>(k', r') \<in> set (bodyHash w). Body_isDynamic (bodyObj w r') \<longrightarrow>
                 Space_TIME_TO_SLEEP \<le> b_sleepTime (bodyObj w' r'))
          \<longrightarrow> (\<forall>(k', r') \<in> set (bodyHash w). \<not> Body_isAwake (bodyObj w' r'))))"
proof -
  define bs where "bs = map snd (bodyHash w)"
  define m where "m = fst (sleep_times dt bs (Num 999999) w)"
  define w1 where "w1 = snd (sleep_times dt bs (Num 999999) w)"
  define w' where "w' = Space_step_sleep dt positionSolved True w"
  have r: "r \<in> set bs" using assms(1) by (force simp: bs_def)
  have d: "distinct bs" using assms(2) by (simp add: bs_def)
  have run: "w' = (if positionSolved \<and> Space_TIME_TO_SLEEP \<le> m then sleep_all bs w1 else w1)"
    by (simp add: w'_def Space_step_sleep_def bs_def m_def w1_def case_prod_beta)
  have st: "b_sleepTime (bodyObj w' r') = b_sleepTime (bodyObj w1 r')" for r'
    by (simp add: run)
  have at: "b_sleepTime (bodyObj w1 r) =
           (if moving (bodyObj w r) then Num 0 else b_sleepTime (bodyObj w r) + dt)"
    unfolding w1_def by (rule sleep_times_at [OF r d assms(3)])
  have a: "b_sleepTime (bodyObj w' r) = b_sleepTime (bodyObj w r) + dt"
    if "\<not> (angTolSqr < b_w (bodyObj w r) * b_w (bodyObj w r)
           \<or> linTolSqr < vec2_dot (b_v (bodyObj w r)) (b_v (bodyObj w r)))"
    using that at by (simp add: st moving_def)
  have b: "b_sleepTime (bodyObj w' r) = Num 0 \<and> \<not> Num 0 < m
           \<and> (\<forall>r'. Body_isAwake (bodyObj w' r') = Body_isAwake (bodyObj w r'))"
    if "angTolSqr < b_w (bodyObj w r) * b_w (bodyObj w r)
        \<or> linTolSqr < vec2_dot (b_v (bodyObj w r)) (b_v (bodyObj w r))"
  proof -
    have mv: "moving (bodyObj w r)" using that by (simp add: moving_def)
    have low: "\<not> Num 0 < m"
      unfolding m_def by (rule sleep_times_moving [OF r assms(3) mv d])
    then have "w' = w1"
      using not_pos_below_TIME_TO_SLEEP by (simp add: run)
    then show ?thesis
      using at mv low by (simp add: w1_def Body_isAwake_def)
  qed
  have c: "\<forall>(k', r') \<in> set (bodyHash w). \<not> Body_isAwake (bodyObj w' r')"
    if ps: "positionSolved"
      and all: "\<forall>(k', r') \<in> set (bodyHash w). Body_isDynamic (bodyObj w r') \<longrightarrow>
                 Space_TIME_TO_SLEEP \<le> b_sleepTime (bodyObj w' r')"
  proof -
    have "\<forall>r \<in> set bs. Body_isDynamic (bodyObj w r) \<longrightarrow>
           Space_TIME_TO_SLEEP \<le> b_sleepTime (bodyObj (snd (sleep_times dt bs (Num 999999) w)) r)"
      using all unfolding w1_def [symmetric] by (force simp: bs_def st)
    moreover have "Space_TIME_TO_SLEEP \<le> Num 999999"
      by (simp add: Space_TIME_TO_SLEEP_def)
    ultimately have "Space_TIME_TO_SLEEP \<le> m"
      unfolding m_def using d by (intro sleep_times_all_rested)
    then have "w' = sleep_all bs w1"
      using ps by (simp add: run)
    then show ?thesis
      by (force simp: sleep_all_awaked Body_isAwake_def bs_def)
  qed
  show ?thesis
    unfolding Let_def bs_def [symmetric] m_def [symmetric] w'_def [symmetric]
    using a b c by blast
qed

lemma resting_facts:
  "bodyHash resting = [(0, 0)]" "bodyObj resting 0 = body0\<lparr>b_space := True\<rparr>"
  by (simp_all add: resting_def Space_addBody_def world_eval hash_get_def Let_def
      Body_awake_def ext0_def body0_def vec2_defs cong: let_weak_cong)

lemma drifting_facts:
  "bodyHash drifting = [(0, 0)]"
  "bodyObj drifting 0 = body0\<lparr>b_v := vec2_new (Num 1) (Num 0), b_w := Num 1,
                               b_sleepTime := Num (1 / 4)\<rparr>"
  by (simp_all add: drifting_def resting_facts body0_def)

lemma tolerances:
  "Num 0 \<le> angTolSqr" "linTolSqr = Num (1 / 4)" "Space_TIME_TO_SLEEP = Num (1 / 2)"
  by (simp_all add: angTolSqr_def linTolSqr_def Space_SLEEP_ANGULAR_TOLERANCE_def
      Space_SLEEP_LINEAR_TOLERANCE_def deg2rad_def Space_TIME_TO_SLEEP_def)

lemma spinning_facts:
  "bodyHash spinning = [(0, 0)]" "bodyObj spinning 0 = body0\<lparr>b_w := NaN\<rparr>"
  by (simp_all add: spinning_def resting_facts body0_def)

text \<open>
  C5 as stated fails on a dynamic body at rest whose angular velocity is \<open>NaN\<close>: \<open>w\<^sup>2\<close> is
  not at most the squared tolerance, so the claim has its \<open>sleepTime\<close> reset to zero and
  the minimum forced to zero; the step with a time step of one half second adds the time
  step to the \<open>sleepTime\<close>, takes one half for the minimum and puts the body to sleep.
\<close>

theorem Space_step_sleep_accounting_counterexample:
  "bodyHash spinning = [(0, 0)] \<and> Body_isDynamic (bodyObj spinning 0)
   \<and> Body_isAwake (bodyObj spinning 0)
   \<and> b_w (bodyObj spinning 0) = NaN
   \<and> \<not> b_w (bodyObj spinning 0) * b_w (bodyObj spinning 0) \<le> angTolSqr
   \<and> b_sleepTime (bodyObj spinning 0) = Num 0
   \<and> b_sleepTime (bodyObj (Space_step_sleep (Num (1 / 2)) True True spinning) 0) = Num (1 / 2)
   \<and> b_sleepTime (bodyObj (Space_step_sleep (Num (1 / 2)) True True spinning) 0) \<noteq> Num 0
   \<and> fst (sleep_times (Num (1 / 2)) (map snd (bodyHash spinning)) (Num 999999) spinning)
       = Num (1 / 2)
   \<and> \<not> Body_isAwake (bodyObj (Space_step_sleep (Num (1 / 2)) True True spinning) 0)"
  by (simp add: spinning_facts Space_step_sleep_def Body_isDynamic_def Body_isAwake_def
      Body_awake_def body0_def vec2_defs tolerances(2,3) angTolSqr_def
      Space_SLEEP_ANGULAR_TOLERANCE_def deg2rad_def upd_body_def Let_def
      cong: let_weak_cong)

text \<open>
  With a time step of one half second and the position solved, the resting body reaches
  \<open>TIME_TO_SLEEP\<close> and is put to sleep; the drifting body's \<open>sleepTime\<close> is reset and it stays
  awake.
\<close>

theorem Space_step_sleep_accounting_witness:
  "\<not> (angTolSqr < b_w (bodyObj resting 0) * b_w (bodyObj resting 0)
       \<or> linTolSqr < vec2_dot (b_v (bodyObj resting 0)) (b_v (bodyObj resting 0)))
   \<and> b_sleepTime (bodyObj resting 0) = Num 0
   \<and> b_sleepTime (bodyObj (Space_step_sleep (Num (1 / 2)) True True resting) 0) = Num (1 / 2)
   \<and> \<not> Body_isAwake (bodyObj (Space_step_sleep (Num (1 / 2)) True True resting) 0)
   \<and> linTolSqr < vec2_dot (b_v (bodyObj drifting 0)) (b_v (bodyObj drifting 0))
   \<and> b_sleepTime (bodyObj drifting 0) = Num (1 / 4)
   \<and> b_sleepTime (bodyObj (Space_step_sleep (Num (1 / 2)) True True drifting) 0) = Num 0
   \<and> Body_isAwake (bodyObj (Space_step_sleep (Num (1 / 2)) True True drifting) 0)"
proof -
  have r: "(0, 0) \<in> set (bodyHash resting)" "distinct (map snd (bodyHash resting))"
    "Body_isDynamic (bodyObj resting 0)"
    by (simp_all add: resting_facts Body_isDynamic_def body0_def)
  have d: "(0, 0) \<in> set (bodyHash drifting)" "distinct (map snd (bodyHash drifting))"
    "Body_isDynamic (bodyObj drifting 0)"
    by (simp_all add: drifting_facts Body_isDynamic_def body0_def)
  have le: "b_w (bodyObj resting 0) * b_w (bodyObj resting 0) \<le> angTolSqr"
    "vec2_dot (b_v (bodyObj resting 0)) (b_v (bodyObj resting 0)) \<le> linTolSqr"
    using tolerances(1) by (simp_all add: resting_facts body0_def vec2_defs tolerances(2))
  have rest: "\<not> (angTolSqr < b_w (bodyObj resting 0) * b_w (bodyObj resting 0)
       \<or> linTolSqr < vec2_dot (b_v (bodyObj resting 0)) (b_v (bodyObj resting 0)))"
    "b_sleepTime (bodyObj resting 0) = Num 0"
    using le [THEN jsnum_le_not_less] by (simp_all add: resting_facts body0_def)
  have drift: "linTolSqr < vec2_dot (b_v (bodyObj drifting 0)) (b_v (bodyObj drifting 0))"
    "b_sleepTime (bodyObj drifting 0) = Num (1 / 4)" "Body_isAwake (bodyObj drifting 0)"
    by (simp_all add: drifting_facts body0_def vec2_defs tolerances(2) Body_isAwake_def)
  note R = Space_step_sleep_accounting [OF r, of "Num (1 / 2)" True, unfolded Let_def]
  note D = Space_step_sleep_accounting [OF d, of "Num (1 / 2)" True, unfolded Let_def]
  have r1: "b_sleepTime (bodyObj (Space_step_sleep (Num (1 / 2)) True True resting) 0) = Num (1 / 2)"
    using R rest by simp
  have r2: "\<not> Body_isAwake (bodyObj (Space_step_sleep (Num (1 / 2)) True True resting) 0)"
    using R r1 by (simp add: resting_facts tolerances(3) Body_isDynamic_def)
  have d1: "b_sleepTime (bodyObj (Space_step_sleep (Num (1 / 2)) True True drifting) 0) = Num 0"
    "Body_isAwake (bodyObj (Space_step_sleep (Num (1 / 2)) True True drifting) 0)"
    using D drift by simp_all
  show ?thesis
    using rest drift r1 r2 d1 by simp
qed


section \<open>The step: pairs of bodies that the broad phase examines\<close>

lemma unstepped_facts:
  "bodyHash unstepped = [(0, 0), (1, 1)]" "stepCount unstepped = None"
  "contactSolverArr unstepped = []"
  by (simp_all add: unstepped_def Space_addBody_def world_eval shaped_def hash_get_def
      Let_def Body_awake_def ext0_def body0_def cong: let_weak_cong)

lemmas broadphase_eval = Space_step_generate_def Space_genTemporalContactSolvers_def
  Space_addBody_def shaped_def hash_get_def gen_pair_def gen_shapes_def
  Space_findContactSolver_def js_eq_def Body_isAwake_def Body_isStatic_def
  Body_awake_def ext0_def body0_def shape0_def Shape_TYPE_CIRCLE_def

text \<open>
  C1. The claim is that in every call to \<open>Space.step\<close> the broad phase examines each
  unordered pair of distinct bodies at most once. The test that is to ensure it compares
  the \<open>stepCount\<close> of the two bodies with \<open>==\<close>. The constructor of \<open>Space\<close> does not set
  \<open>stepCount\<close> (only \<open>clear\<close> does), so in a Space that was never cleared \<open>this.stepCount++\<close>
  gives \<open>NaN\<close>, which is not equal to itself: the test never holds, and with two bodies the
  step examines all four ordered pairs, each body with itself included, and builds a contact
  solver for each.
\<close>

theorem Space_step_generate_never_cleared:
  "stepCount unstepped = None
   \<and> bodyHash unstepped = [(0, 0), (1, 1)]
   \<and> stepCount (bp_world (Space_step_generate ext0 unstepped)) = Some NaN
   \<and> examined (Space_step_generate ext0 unstepped) = [(0, 0), (0, 1), (1, 0), (1, 1)]
   \<and> map (\<lambda>c. (cs_shape1 (contactSolverObj (bp_world (Space_step_generate ext0 unstepped)) c),
                cs_shape2 (contactSolverObj (bp_world (Space_step_generate ext0 unstepped)) c)))
         (newContactSolverArr (Space_step_generate ext0 unstepped))
       = [(0, 0), (0, 1), (1, 0), (1, 1)]"
  by (simp add: unstepped_def broadphase_eval world_eval Let_def cong: let_weak_cong)

text \<open>The same two bodies in a Space that was cleared first: one pair, examined once.\<close>

lemma Space_step_generate_cleared:
  "stepCount restarted = Some (Num 0)
   \<and> examined (Space_step_generate ext0 restarted) = [(0, 1)]
   \<and> map (\<lambda>c. (cs_shape1 (contactSolverObj (bp_world (Space_step_generate ext0 restarted)) c),
                cs_shape2 (contactSolverObj (bp_world (Space_step_generate ext0 restarted)) c)))
         (newContactSolverArr (Space_step_generate ext0 restarted))
       = [(0, 1)]"
  by (simp add: restarted_def Space_clear_def hash_keys_def broadphase_eval world_eval Let_def
      cong: let_weak_cong)


lemma same_marks_refl [simp]: "same_marks w w"
  by (simp add: same_marks_def)

lemma same_marks_trans: "same_marks w w' \<Longrightarrow> same_marks w' w'' \<Longrightarrow> same_marks w w''"
  by (simp add: same_marks_def)

lemma gen_shapes_marks:
  assumes "keeps_stepCount x"
  shows "same_marks (bp_world bp) (bp_world (gen_shapes x b1 b2 s1 s2 bp))
         \<and> examined (gen_shapes x b1 b2 s1 s2 bp) = examined bp"
  using assms
  by (auto simp: gen_shapes_def Let_def same_marks_def keeps_stepCount_def on_store_def
      put_store_def store.truncate_def upd_body_def Body_awake_def
      split: prod.splits option.splits)

lemma gen_shapes_j_marks:
  assumes "keeps_stepCount x"
  shows "same_marks (bp_world bp) (bp_world (gen_shapes_j x b1 b2 s1 ss bp))
         \<and> examined (gen_shapes_j x b1 b2 s1 ss bp) = examined bp"
proof (induction ss arbitrary: bp)
  case Nil
  then show ?case by simp
next
  case (Cons s2 ss)
  show ?case
    using gen_shapes_marks [OF assms, where bp = bp and ?b1.0 = b1 and ?b2.0 = b2
        and ?s1.0 = s1 and ?s2.0 = s2]
      Cons.IH [of "gen_shapes x b1 b2 s1 s2 bp"]
    by (auto intro: same_marks_trans)
qed

lemma gen_shapes_i_marks:
  assumes "keeps_stepCount x"
  shows "same_marks (bp_world bp) (bp_world (gen_shapes_i x b1 b2 ss bp))
         \<and> examined (gen_shapes_i x b1 b2 ss bp) = examined bp"
proof (induction ss arbitrary: bp)
  case Nil
  then show ?case by simp
next
  case (Cons s1 ss)
  show ?case
    using gen_shapes_j_marks [OF assms, where bp = bp and ?b1.0 = b1 and ?b2.0 = b2
        and ?s1.0 = s1 and ss = "b_shapeArr (bodyObj (bp_world bp) b2)"]
      Cons.IH [of "gen_shapes_j x b1 b2 s1 (b_shapeArr (bodyObj (bp_world bp) b2)) bp"]
    by (auto intro: same_marks_trans)
qed

lemma gen_pair_marks:
  assumes "keeps_stepCount x"
  shows "same_marks (bp_world bp) (bp_world (gen_pair x b1 b2 bp))"
    and "examined (gen_pair x b1 b2 bp) =
           (if js_loose_eq (b_stepCount (bodyObj (bp_world bp) b1))
                           (b_stepCount (bodyObj (bp_world bp) b2))
            then examined bp else examined bp @ [(b1, b2)])"
  using gen_shapes_i_marks [OF assms,
      where bp = "bp\<lparr>examined := examined bp @ [(b1, b2)]\<rparr>" and ?b1.0 = b1 and ?b2.0 = b2
        and ss = "b_shapeArr (bodyObj (bp_world bp) b1)"]
  by (auto simp: gen_pair_def Let_def)

lemma gen_inner_marks:
  assumes "keeps_stepCount x"
  shows "same_marks (bp_world bp) (bp_world (gen_inner x b1 bs bp))
     \<and> examined (gen_inner x b1 bs bp) =
         examined bp @ map (Pair b1)
           (filter (\<lambda>b2. \<not> js_loose_eq (b_stepCount (bodyObj (bp_world bp) b1))
                                         (b_stepCount (bodyObj (bp_world bp) b2))) bs)"
proof (induction bs arbitrary: bp)
  case Nil
  then show ?case by simp
next
  case (Cons b2 bs)
  define bp1 where "bp1 = gen_pair x b1 b2 bp"
  have m: "same_marks (bp_world bp) (bp_world bp1)"
    unfolding bp1_def by (rule gen_pair_marks(1) [OF assms])
  then have sc: "b_stepCount (bodyObj (bp_world bp1) r) = b_stepCount (bodyObj (bp_world bp) r)" for r
    by (simp add: same_marks_def)
  show ?case
    using Cons.IH [of bp1] m gen_pair_marks(2) [OF assms, where bp = bp and ?b1.0 = b1 and ?b2.0 = b2]
    by (auto simp: bp1_def [symmetric] sc intro: same_marks_trans)
qed


text \<open>
  In a Space whose \<open>stepCount\<close> is a number (it was cleared, or stepped from a number), the
  test does what it is meant to do: the sequence of examined pairs has no repetition, no
  pair of a body with itself, and never both a pair and its reverse.
\<close>

lemma js_loose_eq_number: "js_loose_eq (Some (Num m)) v \<longleftrightarrow> v = Some (Num m)"
  by (cases v) (auto simp: js_eq_def)

lemma gen_outer_examined:
  assumes "keeps_stepCount x"
  shows "stepCount (bp_world bp) = Some (Num m) \<Longrightarrow> distinct (map snd (bodyHash (bp_world bp)))
     \<Longrightarrow> distinct todo \<Longrightarrow>
     \<exists>new. examined (gen_outer x todo bp) = examined bp @ new \<and> distinct new
       \<and> (\<forall>(a, b) \<in> set new. a \<in> set todo \<and> a \<noteq> b
             \<and> b_stepCount (bodyObj (bp_world bp) b) \<noteq> Some (Num m) \<and> (b, a) \<notin> set new)"
proof (induction todo arbitrary: bp)
  case Nil
  then show ?case by simp
next
  case (Cons b1 rest)
  define w where "w = bp_world bp"
  define bs where "bs = map snd (bodyHash w)"
  define w1 where "w1 = upd_body b1 (\<lambda>b. b\<lparr>b_stepCount := stepCount w\<rparr>) w"
  define bp2 where "bp2 = gen_inner x b1 bs (bp\<lparr>bp_world := w1\<rparr>)"
  define N1 where "N1 = map (Pair b1)
     (filter (\<lambda>b2. \<not> js_loose_eq (b_stepCount (bodyObj w1 b1)) (b_stepCount (bodyObj w1 b2))) bs)"
  have sw: "stepCount w = Some (Num m)" and dbs: "distinct bs"
    using Cons.prems by (simp_all add: w_def bs_def)
  have w1: "bodyHash w1 = bodyHash w" "stepCount w1 = stepCount w"
    "b_stepCount (bodyObj w1 b1) = Some (Num m)"
    "\<And>r. r \<noteq> b1 \<Longrightarrow> b_stepCount (bodyObj w1 r) = b_stepCount (bodyObj w r)"
    by (simp_all add: w1_def upd_body_def sw)
  have run: "gen_outer x (b1 # rest) bp = gen_outer x rest bp2"
    by (simp add: bp2_def w1_def bs_def w_def Let_def upd_body_def)
  have inner: "same_marks w1 (bp_world bp2)" "examined bp2 = examined bp @ N1"
    using gen_inner_marks [OF assms, where bp = "bp\<lparr>bp_world := w1\<rparr>" and ?b1.0 = b1 and bs = bs]
    by (simp_all add: bp2_def N1_def)
  have m2: "stepCount (bp_world bp2) = Some (Num m)"
    "distinct (map snd (bodyHash (bp_world bp2)))"
    "\<And>r. b_stepCount (bodyObj (bp_world bp2) r) = b_stepCount (bodyObj w1 r)"
    using inner(1) w1 sw dbs by (simp_all add: same_marks_def bs_def)
  have drest: "distinct rest" and b1rest: "b1 \<notin> set rest"
    using Cons.prems(3) by simp_all
  from Cons.IH [OF m2(1,2) drest] obtain new2 where
    ex2: "examined (gen_outer x rest bp2) = examined bp2 @ new2" and d2: "distinct new2"
    and p2: "\<forall>(a, b) \<in> set new2. a \<in> set rest \<and> a \<noteq> b
             \<and> b_stepCount (bodyObj (bp_world bp2) b) \<noteq> Some (Num m) \<and> (b, a) \<notin> set new2"
    by blast
  have n1: "a = b1 \<and> b \<noteq> b1 \<and> b_stepCount (bodyObj w b) \<noteq> Some (Num m)"
    if "(a, b) \<in> set N1" for a b
  proof -
    from that have a: "a = b1" and b: "b_stepCount (bodyObj w1 b) \<noteq> Some (Num m)"
      by (auto simp: N1_def js_loose_eq_number w1(3))
    from b w1(3) have "b \<noteq> b1" by auto
    with a b w1(4) [of b] show ?thesis by simp
  qed
  have dn1: "distinct N1"
    unfolding N1_def using dbs by (simp add: distinct_map inj_on_def)
  have p2': "a \<in> set rest \<and> a \<noteq> b \<and> b \<noteq> b1
              \<and> b_stepCount (bodyObj w b) \<noteq> Some (Num m) \<and> (b, a) \<notin> set new2"
    if "(a, b) \<in> set new2" for a b
  proof -
    from that p2 have q: "a \<in> set rest" "a \<noteq> b"
      "b_stepCount (bodyObj (bp_world bp2) b) \<noteq> Some (Num m)" "(b, a) \<notin> set new2"
      by auto
    then have "b \<noteq> b1" using w1(3) m2(3) by auto
    then show ?thesis
      using q w1(4) [of b] m2(3) [of b] by simp
  qed
  have disj: "set N1 \<inter> set new2 = {}"
  proof (rule ccontr)
    assume "set N1 \<inter> set new2 \<noteq> {}"
    then obtain a b where "(a, b) \<in> set N1" "(a, b) \<in> set new2" by auto
    with n1 [of a b] p2' [of a b] b1rest show False by simp
  qed
  have ex: "examined (gen_outer x (b1 # rest) bp) = examined bp @ (N1 @ new2)"
    unfolding run by (simp add: ex2 inner(2))
  have dist: "distinct (N1 @ new2)"
    using dn1 d2 disj by simp
  have all: "a \<in> set (b1 # rest) \<and> a \<noteq> b
             \<and> b_stepCount (bodyObj (bp_world bp) b) \<noteq> Some (Num m)
             \<and> (b, a) \<notin> set (N1 @ new2)"
    if ab: "(a, b) \<in> set (N1 @ new2)" for a b
  proof -
    from ab consider (first) "(a, b) \<in> set N1" | (later) "(a, b) \<in> set new2"
      by auto
    then show ?thesis
    proof cases
      case first
      note f = n1 [OF first]
      have "(b, a) \<notin> set N1"
        using n1 [of b a] f by auto
      moreover have "(b, a) \<notin> set new2"
        using p2' [of b a] f by auto
      ultimately show ?thesis
        using f by (simp add: w_def)
    next
      case later
      note l = p2' [OF later]
      have "(b, a) \<notin> set N1"
        using n1 [of b a] l by auto
      then show ?thesis
        using l by (simp add: w_def)
    qed
  qed
  show ?case
  proof (intro exI conjI)
    show "examined (gen_outer x (b1 # rest) bp) = examined bp @ (N1 @ new2)"
      by (rule ex)
    show "distinct (N1 @ new2)"
      by (rule dist)
    show "\<forall>(a, b) \<in> set (N1 @ new2). a \<in> set (b1 # rest) \<and> a \<noteq> b
             \<and> b_stepCount (bodyObj (bp_world bp) b) \<noteq> Some (Num m)
             \<and> (b, a) \<notin> set (N1 @ new2)"
      using all by blast
  qed
qed

lemma broadphase_pairs_once:
  assumes "keeps_stepCount x" "stepCount w = Some (Num n)" "distinct (map snd (bodyHash w))"
  shows "distinct (examined (Space_step_generate x w))"
    and "\<forall>(a, b) \<in> set (examined (Space_step_generate x w)).
           a \<noteq> b \<and> (b, a) \<notin> set (examined (Space_step_generate x w))"
proof -
  define bp where "bp = \<lparr>newContactSolverArr = [], examined = [],
     bp_world = w\<lparr>stepCount := js_increment (stepCount w), numContacts := 0\<rparr>\<rparr>"
  have ex: "examined (Space_step_generate x w) = examined (gen_outer x (map snd (bodyHash w)) bp)"
    by (simp add: Space_step_generate_def Space_genTemporalContactSolvers_def Let_def bp_def)
  have a: "stepCount (bp_world bp) = Some (Num (n + 1))"
    "distinct (map snd (bodyHash (bp_world bp)))"
    using assms(2,3) by (simp_all add: bp_def)
  from gen_outer_examined [OF assms(1) a assms(3)] obtain new where
    n: "examined (gen_outer x (map snd (bodyHash w)) bp) = examined bp @ new"
    and d: "distinct new"
    and p: "\<forall>(a, b) \<in> set new. a \<in> set (map snd (bodyHash w)) \<and> a \<noteq> b
             \<and> b_stepCount (bodyObj (bp_world bp) b) \<noteq> Some (Num (n + 1))
             \<and> (b, a) \<notin> set new"
    by blast
  have "examined bp = []"
    by (simp add: bp_def)
  then have e: "examined (Space_step_generate x w) = new"
    by (simp add: ex n)
  show "distinct (examined (Space_step_generate x w))"
    unfolding e by (rule d)
  show "\<forall>(a, b) \<in> set (examined (Space_step_generate x w)).
           a \<noteq> b \<and> (b, a) \<notin> set (examined (Space_step_generate x w))"
    unfolding e using p by blast
qed

text \<open>
  The rest of C1: a pair that fails one of the three tests adds no contact solver and
  changes nothing in the state.
\<close>

lemma gen_pair_filtered:
  assumes "(\<not> (Body_isAwake (bodyObj (bp_world bp) b1) \<and> \<not> Body_isStatic (bodyObj (bp_world bp) b1))
            \<and> \<not> (Body_isAwake (bodyObj (bp_world bp) b2) \<and> \<not> Body_isStatic (bodyObj (bp_world bp) b2)))
         \<or> \<not> Body_isCollidable x b1 b2 (store.truncate (bp_world bp))
         \<or> \<not> Bounds_intersectsBounds x (b_bounds (bodyObj (bp_world bp) b1))
                (b_bounds (bodyObj (bp_world bp) b2))"
  shows "newContactSolverArr (gen_pair x b1 b2 bp) = newContactSolverArr bp"
    and "bp_world (gen_pair x b1 b2 bp) = bp_world bp"
  using assms by (auto simp: gen_pair_def Let_def)


section \<open>Scenes: what a faulty scene does\<close>

lemma create_joints_append:
  "create_joints x (pre @ rest) (joint, w) =
     (case create_joints x pre (joint, w) of
        (None, joint', w') \<Rightarrow> create_joints x rest (joint', w')
      | (Some e, joint', w') \<Rightarrow> (Some e, joint', w'))"
proof (induction pre arbitrary: joint w)
  case Nil
  then show ?case by simp
next
  case (Cons cj pre)
  show ?case
    by (simp add: Cons.IH Let_def split: option.splits prod.splits)
qed

lemma create_joints_unknown_first:
  "joint_class_of (cfj_type cj) = None \<Longrightarrow>
   create_joints x (cj # cjs) (None, w) = (Some TypeError, None, w)"
  by simp

lemma create_joints_missing_body:
  "joint_class_of (cfj_type cj) \<noteq> None \<Longrightarrow>
   hash_get (bodyHash w) (cfj_body1 cj) = None \<or> hash_get (bodyHash w) (cfj_body2 cj) = None \<Longrightarrow>
   create_joints x (cj # cjs) (joint, w) = (Some TypeError, joint, w)"
  by (auto simp: Let_def split: option.splits)

lemma new_Body_registry: "Space_registry (snd (new_Body x ty px py a w)) = Space_registry w"
  by (simp add: new_Body_def Space_registry_def)

lemma switch_shape_unknown:
  "cfs_type cs \<notin> {''ShapeCircle'', ''ShapeSegment'', ''ShapePoly''} \<Longrightarrow>
   switch_shape cs shape w = (shape, w)"
  by (simp add: switch_shape_def)

lemma create_bodies_unknown_first_shape:
  assumes "cfb_shapes cb = cs # css"
    and "cfs_type cs \<notin> {''ShapeCircle'', ''ShapeSegment'', ''ShapePoly''}"
  shows "fst (create_bodies x (cb # cbs) (None, w)) = Some TypeError
     \<and> Space_registry (snd (snd (create_bodies x (cb # cbs) (None, w)))) = Space_registry w"
  using assms new_Body_registry [of x _ _ _ _ w]
  by (simp add: Let_def switch_shape_unknown case_prod_beta)

lemma create_bodies_append:
  "create_bodies x (pre @ rest) (shape, w) =
     (case create_bodies x pre (shape, w) of
        (None, shape', w') \<Rightarrow> create_bodies x rest (shape', w')
      | (Some e, shape', w') \<Rightarrow> (Some e, shape', w'))"
proof (induction pre arbitrary: shape w)
  case Nil
  then show ?case by simp
next
  case (Cons cb pre)
  show ?case
    by (simp add: Cons.IH Let_def split: option.splits prod.splits)
qed

lemma create_bodies_no_shapes:
  "\<forall>b \<in> set pre. cfb_shapes b = [] \<Longrightarrow>
   \<exists>w'. create_bodies x pre (shape, w) = (None, shape, w')"
proof (induction pre arbitrary: w)
  case Nil
  then show ?case by simp
next
  case (Cons cb pre)
  then show ?case
    by (simp add: Let_def case_prod_beta)
qed

lemma Space_create_unfold:
  "Space_create x config w =
     (case create_bodies x (cfg_bodies config) (None, Space_clear w) of
        (Some e, shape, w') \<Rightarrow> (Some e, w')
      | (None, shape, w') \<Rightarrow>
          (fst (create_joints x (cfg_joints config) (None, w')),
           snd (snd (create_joints x (cfg_joints config) (None, w')))))"
  by (simp add: Space_create_def Let_def split: prod.splits option.splits)

lemma Space_create_no_joints:
  "fst (Space_create x (config\<lparr>cfg_joints := []\<rparr>) w) = None \<Longrightarrow>
   \<exists>shape. create_bodies x (cfg_bodies config) (None, Space_clear w)
     = (None, shape, snd (Space_create x (config\<lparr>cfg_joints := []\<rparr>) w))"
  by (auto simp: Space_create_unfold split: prod.splits option.splits)

lemma Space_create_bodies_ok:
  "fst (Space_create x (config\<lparr>cfg_joints := pre\<rparr>) w) = None \<Longrightarrow>
   \<exists>shape w1 joint. create_bodies x (cfg_bodies config) (None, Space_clear w) = (None, shape, w1)
     \<and> create_joints x pre (None, w1)
         = (None, joint, snd (Space_create x (config\<lparr>cfg_joints := pre\<rparr>) w))"
  by (auto simp: Space_create_unfold split: prod.splits option.splits)
     (metis prod.collapse)

text \<open>
  C7, as amended. \<open>Space.create\<close> does not validate the scene and does not undo a load that
  fails. It raises a TypeError, the same error in the three cases: when the first shape
  entry of the scene has an unknown kind (the bodies before its body have no shapes), when
  the bodies load and the first joint has an unknown kind, and when the bodies and the
  joints before it load and a joint of a known kind refers to a body that is not
  registered. What was loaded before the faulty entry stays registered: the tables and
  counters are those that the load of the bodies before the faulty body gives in the first
  case; the world is the one that the load of the scene without its joints gives in the
  second; the tables and counters are those that the load of the scene with the joints
  before the faulty one gives in the third.
\<close>

theorem Space_create_invalid_scene:
  "(\<forall>pre cb post cs css.
       cfg_bodies config = pre @ cb # post \<and> (\<forall>b \<in> set pre. cfb_shapes b = [])
       \<and> cfb_shapes cb = cs # css
       \<and> cfs_type cs \<notin> {''ShapeCircle'', ''ShapeSegment'', ''ShapePoly''} \<longrightarrow>
       fst (Space_create x config w) = Some TypeError
       \<and> fst (Space_create x \<lparr>cfg_bodies = pre, cfg_joints = []\<rparr> w) = None
       \<and> Space_registry (snd (Space_create x config w))
           = Space_registry (snd (Space_create x \<lparr>cfg_bodies = pre, cfg_joints = []\<rparr> w)))
   \<and> (\<forall>cj cjs.
       cfg_joints config = cj # cjs \<and> joint_class_of (cfj_type cj) = None
       \<and> fst (Space_create x (config\<lparr>cfg_joints := []\<rparr>) w) = None \<longrightarrow>
       Space_create x config w
         = (Some TypeError, snd (Space_create x (config\<lparr>cfg_joints := []\<rparr>) w)))
   \<and> (\<forall>pre cj post.
       cfg_joints config = pre @ cj # post \<and> joint_class_of (cfj_type cj) \<noteq> None
       \<and> fst (Space_create x (config\<lparr>cfg_joints := pre\<rparr>) w) = None
       \<and> (hash_get (bodyHash (snd (Space_create x (config\<lparr>cfg_joints := pre\<rparr>) w)))
             (cfj_body1 cj) = None
          \<or> hash_get (bodyHash (snd (Space_create x (config\<lparr>cfg_joints := pre\<rparr>) w)))
             (cfj_body2 cj) = None) \<longrightarrow>
       fst (Space_create x config w) = Some TypeError
       \<and> Space_registry (snd (Space_create x config w))
           = Space_registry (snd (Space_create x (config\<lparr>cfg_joints := pre\<rparr>) w)))"
proof (intro conjI allI impI)
  fix pre cb post cs css
  assume a: "cfg_bodies config = pre @ cb # post \<and> (\<forall>b \<in> set pre. cfb_shapes b = [])
       \<and> cfb_shapes cb = cs # css
       \<and> cfs_type cs \<notin> {''ShapeCircle'', ''ShapeSegment'', ''ShapePoly''}"
  then have s: "cfb_shapes cb = cs # css"
    and u: "cfs_type cs \<notin> {''ShapeCircle'', ''ShapeSegment'', ''ShapePoly''}"
    and e: "\<forall>b \<in> set pre. cfb_shapes b = []"
    and c: "cfg_bodies config = pre @ cb # post"
    by simp_all
  obtain w1 where p: "create_bodies x pre (None, Space_clear w) = (None, None, w1)"
    using create_bodies_no_shapes [OF e] by blast
  have l: "Space_create x \<lparr>cfg_bodies = pre, cfg_joints = []\<rparr> w = (None, w1)"
    by (simp add: Space_create_unfold p)
  note B = create_bodies_unknown_first_shape [OF s u, of x post w1]
  have r: "create_bodies x (cfg_bodies config) (None, Space_clear w)
           = create_bodies x (cb # post) (None, w1)"
    unfolding c create_bodies_append p by simp
  show "fst (Space_create x config w) = Some TypeError"
    using B unfolding Space_create_unfold [of x config] r
    by (auto split: prod.splits option.splits)
  show "fst (Space_create x \<lparr>cfg_bodies = pre, cfg_joints = []\<rparr> w) = None"
    by (simp add: l)
  show "Space_registry (snd (Space_create x config w))
        = Space_registry (snd (Space_create x \<lparr>cfg_bodies = pre, cfg_joints = []\<rparr> w))"
    using B unfolding Space_create_unfold [of x config] r l
    by (auto split: prod.splits option.splits)
next
  fix cj cjs
  assume a: "cfg_joints config = cj # cjs \<and> joint_class_of (cfj_type cj) = None
       \<and> fst (Space_create x (config\<lparr>cfg_joints := []\<rparr>) w) = None"
  then obtain shape where
    b: "create_bodies x (cfg_bodies config) (None, Space_clear w)
        = (None, shape, snd (Space_create x (config\<lparr>cfg_joints := []\<rparr>) w))"
    using Space_create_no_joints by blast
  show "Space_create x config w
         = (Some TypeError, snd (Space_create x (config\<lparr>cfg_joints := []\<rparr>) w))"
    using a by (simp add: Space_create_unfold [of x config] b)
next
  fix pre cj post
  assume a: "cfg_joints config = pre @ cj # post \<and> joint_class_of (cfj_type cj) \<noteq> None
       \<and> fst (Space_create x (config\<lparr>cfg_joints := pre\<rparr>) w) = None
       \<and> (hash_get (bodyHash (snd (Space_create x (config\<lparr>cfg_joints := pre\<rparr>) w)))
             (cfj_body1 cj) = None
          \<or> hash_get (bodyHash (snd (Space_create x (config\<lparr>cfg_joints := pre\<rparr>) w)))
             (cfj_body2 cj) = None)"
  define w2 where "w2 = snd (Space_create x (config\<lparr>cfg_joints := pre\<rparr>) w)"
  from a obtain shape w1 joint where
    b: "create_bodies x (cfg_bodies config) (None, Space_clear w) = (None, shape, w1)"
    and j: "create_joints x pre (None, w1) = (None, joint, w2)"
    using Space_create_bodies_ok [where x = x and config = config and pre = pre and w = w]
    unfolding w2_def by blast
  have k: "joint_class_of (cfj_type cj) \<noteq> None"
    and m: "hash_get (bodyHash w2) (cfj_body1 cj) = None
            \<or> hash_get (bodyHash w2) (cfj_body2 cj) = None"
    using a by (simp_all add: w2_def)
  have "create_joints x (pre @ cj # post) (None, w1) = (Some TypeError, joint, w2)"
    unfolding create_joints_append j using create_joints_missing_body [OF k m] by simp
  then have run: "Space_create x config w
         = (Some TypeError, snd (Space_create x (config\<lparr>cfg_joints := pre\<rparr>) w))"
    using a by (simp add: Space_create_unfold [of x config] b w2_def)
  show "fst (Space_create x config w) = Some TypeError"
    by (simp add: run)
  show "Space_registry (snd (Space_create x config w))
        = Space_registry (snd (Space_create x (config\<lparr>cfg_joints := pre\<rparr>) w))"
    by (simp add: run)
qed

lemmas scene_eval = Space_create_def Space_clear_def hash_keys_def hash_get_def
  new_Body_def new_Shape_def new_Joint_def Shape_new_def switch_shape_def upd_shape_def
  Body_addShape_def Space_addBody_def Space_addJoint_def Body_awake_def joint_class_of_def
  ext.truncate_def sx0_def body_cfg_def circle_cfg_def joint_cfg_def empty10_def

lemma loaded_body:
  "fst (Space_create sx0 \<lparr>cfg_bodies = [body_cfg], cfg_joints = []\<rparr> empty10) = None"
  "bodyHash (snd (Space_create sx0 \<lparr>cfg_bodies = [body_cfg], cfg_joints = []\<rparr> empty10))
     = [(0, 10)]"
  "numBodies (snd (Space_create sx0 \<lparr>cfg_bodies = [body_cfg], cfg_joints = []\<rparr> empty10)) = 1"
  by (simp_all add: scene_eval world_eval Let_def cong: let_weak_cong)


lemma scene_minus_joints:
  "scene_unknown_joint\<lparr>cfg_joints := []\<rparr> = \<lparr>cfg_bodies = [body_cfg], cfg_joints = []\<rparr>"
  "scene_missing_body\<lparr>cfg_joints := []\<rparr> = \<lparr>cfg_bodies = [body_cfg], cfg_joints = []\<rparr>"
  by (simp_all add: scene_unknown_joint_def scene_missing_body_def)

text \<open>
  C7 as stated fails on a scene with one body and one joint of an unknown kind: the load is
  aborted with a TypeError, the error that a scene with an unknown shape kind gives as well,
  and the body stays registered.
\<close>

theorem Space_create_invalid_scene_counterexample:
  "cfg_joints scene_unknown_joint = [joint_cfg ''SpringJoint'' 0 0]
   \<and> joint_class_of ''SpringJoint'' = None
   \<and> fst (Space_create sx0 scene_unknown_joint empty10) = Some TypeError
   \<and> bodyHash (snd (Space_create sx0 scene_unknown_joint empty10)) = [(0, 10)]
   \<and> numBodies (snd (Space_create sx0 scene_unknown_joint empty10)) = 1
   \<and> fst (Space_create sx0 scene_unknown_shape empty10) = Some TypeError"
  by (simp add: scene_unknown_joint_def scene_unknown_shape_def scene_eval world_eval Let_def
      cong: let_weak_cong)

lemma loaded_shapeless:
  "bodyHash (snd (Space_create sx0 \<lparr>cfg_bodies = [body_cfg\<lparr>cfb_shapes := []\<rparr>],
      cfg_joints = []\<rparr> empty10)) = [(0, 10)]"
  "numBodies (snd (Space_create sx0 \<lparr>cfg_bodies = [body_cfg\<lparr>cfb_shapes := []\<rparr>],
      cfg_joints = []\<rparr> empty10)) = 1"
  by (simp_all add: scene_eval world_eval Let_def cong: let_weak_cong)

text \<open>
  The three cases, on the four scenes. When the faulty shape belongs to the second body,
  the first body stays registered.
\<close>

theorem Space_create_invalid_scene_witness:
  "fst (Space_create sx0 scene_unknown_shape empty10) = Some TypeError
   \<and> Space_registry (snd (Space_create sx0 scene_unknown_shape empty10))
       = Space_registry (snd (Space_create sx0 \<lparr>cfg_bodies = [], cfg_joints = []\<rparr> empty10))
   \<and> fst (Space_create sx0 scene_unknown_later_shape empty10) = Some TypeError
   \<and> bodyHash (snd (Space_create sx0 scene_unknown_later_shape empty10)) = [(0, 10)]
   \<and> numBodies (snd (Space_create sx0 scene_unknown_later_shape empty10)) = 1
   \<and> fst (Space_create sx0 (scene_unknown_joint\<lparr>cfg_joints := []\<rparr>) empty10) = None
   \<and> Space_create sx0 scene_unknown_joint empty10
       = (Some TypeError, snd (Space_create sx0 (scene_unknown_joint\<lparr>cfg_joints := []\<rparr>) empty10))
   \<and> fst (Space_create sx0 (scene_missing_body\<lparr>cfg_joints := []\<rparr>) empty10) = None
   \<and> hash_get (bodyHash (snd (Space_create sx0 (scene_missing_body\<lparr>cfg_joints := []\<rparr>) empty10))) 5
       = None
   \<and> fst (Space_create sx0 scene_missing_body empty10) = Some TypeError
   \<and> Space_registry (snd (Space_create sx0 scene_missing_body empty10))
       = Space_registry (snd (Space_create sx0 (scene_missing_body\<lparr>cfg_joints := []\<rparr>) empty10))"
proof -
  note A = Space_create_invalid_scene [of scene_unknown_shape sx0 empty10, THEN conjunct1, rule_format,
      of "[]" "body_cfg\<lparr>cfb_shapes := [circle_cfg\<lparr>cfs_type := ''ShapeBlob''\<rparr>]\<rparr>" "[]"
         "circle_cfg\<lparr>cfs_type := ''ShapeBlob''\<rparr>" "[]"]
  note A2 = Space_create_invalid_scene [of scene_unknown_later_shape sx0 empty10, THEN conjunct1, rule_format,
      of "[body_cfg\<lparr>cfb_shapes := []\<rparr>]"
         "body_cfg\<lparr>cfb_shapes := [circle_cfg\<lparr>cfs_type := ''ShapeBlob''\<rparr>]\<rparr>" "[]"
         "circle_cfg\<lparr>cfs_type := ''ShapeBlob''\<rparr>" "[]"]
  note B = Space_create_invalid_scene [of scene_unknown_joint sx0 empty10, THEN conjunct2, THEN conjunct1, rule_format,
      of "joint_cfg ''SpringJoint'' 0 0" "[]"]
  note C = Space_create_invalid_scene [of scene_missing_body sx0 empty10, THEN conjunct2, THEN conjunct2, rule_format,
      of "[]" "joint_cfg ''DistanceJoint'' 0 5" "[]"]
  have a: "fst (Space_create sx0 scene_unknown_shape empty10) = Some TypeError
     \<and> fst (Space_create sx0 \<lparr>cfg_bodies = [], cfg_joints = []\<rparr> empty10) = None
     \<and> Space_registry (snd (Space_create sx0 scene_unknown_shape empty10))
         = Space_registry (snd (Space_create sx0 \<lparr>cfg_bodies = [], cfg_joints = []\<rparr> empty10))"
    by (rule A) (simp add: scene_unknown_shape_def)
  have a2: "fst (Space_create sx0 scene_unknown_later_shape empty10) = Some TypeError
     \<and> fst (Space_create sx0 \<lparr>cfg_bodies = [body_cfg\<lparr>cfb_shapes := []\<rparr>], cfg_joints = []\<rparr>
            empty10) = None
     \<and> Space_registry (snd (Space_create sx0 scene_unknown_later_shape empty10))
         = Space_registry (snd (Space_create sx0
             \<lparr>cfg_bodies = [body_cfg\<lparr>cfb_shapes := []\<rparr>], cfg_joints = []\<rparr> empty10))"
    by (rule A2) (simp add: scene_unknown_later_shape_def)
  have a3: "bodyHash (snd (Space_create sx0 scene_unknown_later_shape empty10)) = [(0, 10)]"
    "numBodies (snd (Space_create sx0 scene_unknown_later_shape empty10)) = 1"
    using a2 by (simp_all add: Space_registry_def loaded_shapeless)
  have ok: "fst (Space_create sx0 (scene_unknown_joint\<lparr>cfg_joints := []\<rparr>) empty10) = None"
    "fst (Space_create sx0 (scene_missing_body\<lparr>cfg_joints := []\<rparr>) empty10) = None"
    "hash_get (bodyHash (snd (Space_create sx0 (scene_missing_body\<lparr>cfg_joints := []\<rparr>) empty10))) 5
       = None"
    by (simp_all add: scene_minus_joints loaded_body hash_get_def)
  have b: "Space_create sx0 scene_unknown_joint empty10
       = (Some TypeError, snd (Space_create sx0 (scene_unknown_joint\<lparr>cfg_joints := []\<rparr>) empty10))"
    by (rule B)
       (simp add: scene_unknown_joint_def joint_cfg_def joint_class_of_def loaded_body)
  have c: "fst (Space_create sx0 scene_missing_body empty10) = Some TypeError
     \<and> Space_registry (snd (Space_create sx0 scene_missing_body empty10))
         = Space_registry (snd (Space_create sx0 (scene_missing_body\<lparr>cfg_joints := []\<rparr>) empty10))"
    by (rule C)
       (simp add: scene_missing_body_def joint_cfg_def joint_class_of_def loaded_body
          hash_get_def)
  show ?thesis
    using a a2 a3 b c ok by simp
qed

lemma roped_facts:
  "bodyHash roped = [(0, 0), (1, 1)]" "jointHash roped = [(0, 0)]"
  "j_class (jointObj roped 0) = RopeJoint"
  by (simp_all add: roped_def empty10_def Space_addBody_def Space_addJoint_def world_eval
      hash_get_def Let_def Body_awake_def ext0_def rope0_def body0_def cong: let_weak_cong)

text \<open>
  C8. The claim is that loading the serialized form of any world and serializing again gives
  the serialization back, worlds with a rope joint included. \<open>RopeJoint.serialize\<close> writes
  the kind \<open>RopeJoint\<close>, for which the switch of \<open>create\<close> has no case, while it has one for
  each of the six other joint classes: the load of a world of two bodies and a rope raises
  a TypeError, and the world it leaves behind has no joint.
\<close>

theorem Space_create_toJSON_rope:
  "map cfj_type (cfg_joints (Space_toJSON sx0 roped)) = [''RopeJoint'']
   \<and> length (cfg_bodies (Space_toJSON sx0 roped)) = 2
   \<and> fst (Space_create sx0 (Space_toJSON sx0 roped) roped) = Some TypeError
   \<and> cfg_joints (Space_toJSON sx0 (snd (Space_create sx0 (Space_toJSON sx0 roped) roped))) = []"
  by (simp add: Space_toJSON_def Joint_serialize_dispatch_def RopeJoint_serialize_def
      roped_def Space_removeBody_def Space_removeJoint_def hash_delete_def
      scene_eval world_eval ext0_def rope0_def body0_def Let_def cong: let_weak_cong)


end
